theory Spec2Isabelle
  imports Complex_Main "HOL-Library.Word"
begin

unbundle bit_operations_syntax

section \<open>Relay binary protocol (relay/lora\_relay\_protocol.c)\<close>

text \<open>
  Fixed-width C integers are words: \<open>uint8_t\<close> and \<open>int8_t\<close> are \<open>8 word\<close> (an
  \<open>int8_t\<close> is read with \<open>sint\<close>), \<open>uint16_t\<close> is \<open>16 word\<close>, \<open>uint32_t\<close> is
  \<open>32 word\<close>. The three enums \<open>meta_type_t\<close>, \<open>payload_type_t\<close> and \<open>event_type_t\<close>
  are C integers that the decoder fills with arbitrary bit fields of the input, so they are
  32-bit words with named enumerators rather than datatypes. Arithmetic that C performs
  after integer promotion is written on \<open>32 word\<close> and cast back with \<open>ucast\<close>.
  A pointer argument is an \<open>option\<close>: \<open>None\<close> is \<open>NULL\<close>, \<open>Some v\<close> points to a cell
  holding \<open>v\<close>.
\<close>

type_synonym uint8_t = "8 word"
type_synonym int8_t = "8 word"
type_synonym uint16_t = "16 word"
type_synonym uint32_t = "32 word"
type_synonym meta_type_t = "32 word"
type_synonym payload_type_t = "32 word"
type_synonym event_type_t = "32 word"

definition MAX_PHY_PAYLOAD_LEN :: nat where
  "MAX_PHY_PAYLOAD_LEN = 245"

definition MAX_EVENT_PAYLOAD_LEN :: nat where
  "MAX_EVENT_PAYLOAD_LEN = 240"

definition LORAWAN_TYPE :: meta_type_t where
  "LORAWAN_TYPE = 0x07"

definition UPLINK_TYPE :: payload_type_t where
  "UPLINK_TYPE = 0x00"

definition DOWNLINK_TYPE :: payload_type_t where
  "DOWNLINK_TYPE = 0x01"

definition EVENT_TYPE :: payload_type_t where
  "EVENT_TYPE = 0x03"

definition EVENT_JOIN :: event_type_t where
  "EVENT_JOIN = 0x01"

definition EVENT_RESET :: event_type_t where
  "EVENT_RESET = 0x02"

definition EVENT_ERROR :: event_type_t where
  "EVENT_ERROR = 0x03"

definition EVENT_TIMEOUT :: event_type_t where
  "EVENT_TIMEOUT = 0x04"

text \<open>
  The three packet structs. Field names carry a prefix (\<open>u_\<close>, \<open>d_\<close>, \<open>e_\<close>) because
  the structs share field names. \<open>phy_payload\<close> and \<open>event_payload\<close> are the fixed
  arrays of the struct (245 and 240 bytes); only the first \<open>payload_len\<close> bytes are
  meaningful.
\<close>

record uplink_packet =
  u_meta_type :: meta_type_t
  u_payload_type :: payload_type_t
  u_hop_count :: uint8_t
  u_uplink_id :: uint16_t
  u_data_rate :: uint8_t
  u_rssi :: int8_t
  u_snr :: int8_t
  u_channel :: uint8_t
  u_phy_payload :: "uint8_t list"
  u_payload_len :: uint16_t

record downlink_packet =
  d_meta_type :: meta_type_t
  d_payload_type :: payload_type_t
  d_hop_count :: uint8_t
  d_dwlink_id :: uint16_t
  d_data_rate :: uint8_t
  d_frequency :: uint32_t
  d_tx_power :: uint8_t
  d_delay :: uint8_t
  d_count_us :: uint32_t
  d_phy_payload :: "uint8_t list"
  d_payload_len :: uint16_t

record event_packet =
  e_meta_type :: meta_type_t
  e_payload_type :: payload_type_t
  e_hop_count :: uint8_t
  e_event_id :: uint16_t
  e_event_type :: event_type_t
  e_event_payload :: "uint8_t list"
  e_payload_len :: uint16_t

text \<open>
  \<open>is_big_endian\<close> inspects the host's memory layout; the host byte order is the
  parameter \<open>big_endian\<close> of everything that depends on it.
\<close>

definition be_to_host32 :: "bool \<Rightarrow> uint32_t \<Rightarrow> uint32_t" where
  "be_to_host32 big_endian v =
     (if big_endian then v
      else push_bit 24 (v AND 0x000000FF) OR
           push_bit 8 (v AND 0x0000FF00) OR
           drop_bit 8 (v AND 0x00FF0000) OR
           drop_bit 24 (v AND 0xFF000000))"

definition host_to_be32 :: "bool \<Rightarrow> uint32_t \<Rightarrow> uint32_t" where
  "host_to_be32 big_endian v = be_to_host32 big_endian v"

definition build_mhdr :: "meta_type_t \<Rightarrow> payload_type_t \<Rightarrow> uint8_t \<Rightarrow> uint8_t" where
  "build_mhdr meta_type payload_type hop_count =
     ucast (push_bit 5 (meta_type AND 0x07) OR
            push_bit 3 (payload_type AND 0x03) OR
            (ucast hop_count AND (0x07 :: 32 word)))"

text \<open>
  \<open>parse_mhdr\<close> writes through three output pointers and fails when one of them is
  \<open>NULL\<close>; the flags say which pointers are valid.
\<close>

definition parse_mhdr ::
  "uint8_t \<Rightarrow> bool \<Rightarrow> bool \<Rightarrow> bool \<Rightarrow> (meta_type_t \<times> payload_type_t \<times> uint8_t) option" where
  "parse_mhdr mhdr_byte meta_ok payload_ok hop_ok =
     (if \<not> meta_ok \<or> \<not> payload_ok \<or> \<not> hop_ok then None
      else Some (drop_bit 5 (ucast mhdr_byte) AND 0x07,
                 drop_bit 3 (ucast mhdr_byte) AND 0x03,
                 mhdr_byte AND 0x07))"

text \<open>
  \<open>memcpy (dst, src, n)\<close> on arrays held as lists: the first \<open>n\<close> cells of \<open>dst\<close> are
  replaced by the first \<open>n\<close> cells of \<open>src\<close>, the rest of \<open>dst\<close> stays.
\<close>

definition memcpy :: "'a list \<Rightarrow> 'a list \<Rightarrow> nat \<Rightarrow> 'a list" where
  "memcpy dst src n = take n src @ drop n dst"

text \<open>
  \<open>pack_uplink_packet malloc_ok packet out_len\<close>: \<open>malloc_ok\<close> says whether the
  allocation of the output buffer succeeds. The result is the returned buffer (\<open>None\<close> is
  \<open>NULL\<close>) and the cell \<open>out_len\<close> points to afterwards. The local \<open>index\<close> is a
  \<open>uint8_t\<close> whose final increment by \<open>payload_len\<close> is never read.
\<close>

definition pack_uplink_packet ::
  "bool \<Rightarrow> uplink_packet option \<Rightarrow> uint16_t option \<Rightarrow> uint8_t list option \<times> uint16_t option" where
  "pack_uplink_packet malloc_ok packet out_len =
     (case packet of None \<Rightarrow> (None, out_len) | Some p \<Rightarrow>
      (case out_len of None \<Rightarrow> (None, None) | Some _ \<Rightarrow>
        if unat (u_payload_len p) > MAX_PHY_PAYLOAD_LEN then (None, out_len)
        else if u_payload_type p \<noteq> UPLINK_TYPE then (None, out_len)
        else if u_meta_type p \<noteq> LORAWAN_TYPE then (None, out_len)
        else
          let len = (ucast ((1 :: 32 word) + 5 + ucast (u_payload_len p)) :: uint16_t) in
          if \<not> malloc_ok then (None, Some len)
          else
            (Some ([build_mhdr (u_meta_type p) (u_payload_type p) (u_hop_count p),
                    ucast (drop_bit 4 (ucast (u_uplink_id p) :: 32 word) AND 0xFF),
                    ucast (push_bit 4 (ucast (u_uplink_id p) AND (0x0F :: 32 word)) OR
                           (ucast (u_data_rate p) AND 0x0F)),
                    u_rssi p,
                    u_snr p,
                    u_channel p]
                   @ take (unat (u_payload_len p)) (u_phy_payload p)),
             Some len)))"

text \<open>
  \<open>unpack_uplink_packet data len packet\<close> returns the boolean result and the struct
  \<open>packet\<close> points to afterwards; fields parsed before a failing check stay written.
  \<open>data\<close> and \<open>len\<close> are a C buffer: the caller guarantees \<open>unat len \<le> length data\<close>.
\<close>

definition unpack_uplink_packet ::
  "uint8_t list option \<Rightarrow> uint16_t \<Rightarrow> uplink_packet option \<Rightarrow> bool \<times> uplink_packet option" where
  "unpack_uplink_packet data len packet =
     (case data of None \<Rightarrow> (False, packet) | Some d \<Rightarrow>
      (case packet of None \<Rightarrow> (False, None) | Some p0 \<Rightarrow>
        if len < 6 then (False, packet)
        else
          (case parse_mhdr (d ! 0) True True True of None \<Rightarrow> (False, packet)
           | Some (mt, pt, hc) \<Rightarrow>
             let p1 = p0\<lparr>u_meta_type := mt, u_payload_type := pt, u_hop_count := hc\<rparr> in
             if u_payload_type p1 \<noteq> UPLINK_TYPE then (False, Some p1)
             else if u_meta_type p1 \<noteq> LORAWAN_TYPE then (False, Some p1)
             else
               let p2 = p1\<lparr>u_uplink_id :=
                              ucast (push_bit 4 (ucast (d ! 1) :: 32 word) OR
                                     (drop_bit 4 (ucast (d ! 2)) AND 0x0F)),
                            u_data_rate := (d ! 2) AND 0x0F,
                            u_rssi := d ! 3,
                            u_snr := d ! 4\<rparr> in
               if sint (u_snr p2) < -32 \<or> sint (u_snr p2) > 31 then (False, Some p2)
               else
                 let p3 = p2\<lparr>u_channel := d ! 5, u_payload_len := len - 6\<rparr> in
                 if unat (u_payload_len p3) > MAX_PHY_PAYLOAD_LEN then (False, Some p3)
                 else
                   (True, Some (p3\<lparr>u_phy_payload :=
                      memcpy (u_phy_payload p3) (drop 6 d) (unat (u_payload_len p3))\<rparr>)))))"

text \<open>
  The downlink encoder converts \<open>frequency\<close> and \<open>count_us\<close> with \<open>host_to_be32\<close> and
  then writes the converted word most significant byte first.
\<close>

definition pack_downlink_packet ::
  "bool \<Rightarrow> bool \<Rightarrow> downlink_packet option \<Rightarrow> uint16_t option \<Rightarrow>
     uint8_t list option \<times> uint16_t option" where
  "pack_downlink_packet big_endian malloc_ok packet out_len =
     (case packet of None \<Rightarrow> (None, out_len) | Some p \<Rightarrow>
      (case out_len of None \<Rightarrow> (None, None) | Some _ \<Rightarrow>
        if unat (d_payload_len p) > MAX_PHY_PAYLOAD_LEN then (None, out_len)
        else if d_payload_type p \<noteq> DOWNLINK_TYPE then (None, out_len)
        else if d_meta_type p \<noteq> LORAWAN_TYPE then (None, out_len)
        else
          let len = (ucast ((1 :: 32 word) + 7 + 4 + ucast (d_payload_len p)) :: uint16_t) in
          if \<not> malloc_ok then (None, Some len)
          else
            let freq_be = host_to_be32 big_endian (d_frequency p);
                count_us_be = host_to_be32 big_endian (d_count_us p)
            in
            (Some ([build_mhdr (d_meta_type p) (d_payload_type p) (d_hop_count p),
                    ucast (drop_bit 4 (ucast (d_dwlink_id p) :: 32 word) AND 0xFF),
                    ucast (push_bit 4 (ucast (d_dwlink_id p) AND (0x0F :: 32 word)) OR
                           (ucast (d_data_rate p) AND 0x0F)),
                    ucast (drop_bit 24 freq_be AND 0xFF),
                    ucast (drop_bit 16 freq_be AND 0xFF),
                    ucast (drop_bit 8 freq_be AND 0xFF),
                    ucast (freq_be AND 0xFF),
                    ucast (push_bit 4 (ucast (d_tx_power p) AND (0x0F :: 32 word)) OR
                           (ucast (d_delay p) AND 0x0F)),
                    ucast (drop_bit 24 count_us_be AND 0xFF),
                    ucast (drop_bit 16 count_us_be AND 0xFF),
                    ucast (drop_bit 8 count_us_be AND 0xFF),
                    ucast (count_us_be AND 0xFF)]
                   @ take (unat (d_payload_len p)) (d_phy_payload p)),
             Some len)))"

definition unpack_downlink_packet ::
  "bool \<Rightarrow> uint8_t list option \<Rightarrow> uint16_t \<Rightarrow> downlink_packet option \<Rightarrow>
     bool \<times> downlink_packet option" where
  "unpack_downlink_packet big_endian data len packet =
     (case data of None \<Rightarrow> (False, packet) | Some d \<Rightarrow>
      (case packet of None \<Rightarrow> (False, None) | Some p0 \<Rightarrow>
        if len < 12 then (False, packet)
        else
          (case parse_mhdr (d ! 0) True True True of None \<Rightarrow> (False, packet)
           | Some (mt, pt, hc) \<Rightarrow>
             let p1 = p0\<lparr>d_meta_type := mt, d_payload_type := pt, d_hop_count := hc\<rparr> in
             if d_payload_type p1 \<noteq> DOWNLINK_TYPE then (False, Some p1)
             else if d_meta_type p1 \<noteq> LORAWAN_TYPE then (False, Some p1)
             else
               let freq_be = push_bit 24 (ucast (d ! 3) :: 32 word) OR
                             push_bit 16 (ucast (d ! 4)) OR
                             push_bit 8 (ucast (d ! 5)) OR
                             ucast (d ! 6);
                   count_us_be = push_bit 24 (ucast (d ! 8) :: 32 word) OR
                                 push_bit 16 (ucast (d ! 9)) OR
                                 push_bit 8 (ucast (d ! 10)) OR
                                 ucast (d ! 11);
                   p2 = p1\<lparr>d_dwlink_id :=
                              ucast (push_bit 4 (ucast (d ! 1) :: 32 word) OR
                                     (drop_bit 4 (ucast (d ! 2)) AND 0x0F)),
                            d_data_rate := (d ! 2) AND 0x0F,
                            d_frequency := be_to_host32 big_endian freq_be,
                            d_tx_power := drop_bit 4 (d ! 7) AND 0x0F,
                            d_delay := (d ! 7) AND 0x0F,
                            d_count_us := be_to_host32 big_endian count_us_be,
                            d_payload_len := len - 12\<rparr>
               in
               if unat (d_payload_len p2) > MAX_PHY_PAYLOAD_LEN then (False, Some p2)
               else
                 (True, Some (p2\<lparr>d_phy_payload :=
                    memcpy (d_phy_payload p2) (drop 12 d) (unat (d_payload_len p2))\<rparr>)))))"

definition pack_event_packet ::
  "bool \<Rightarrow> event_packet option \<Rightarrow> uint16_t option \<Rightarrow> uint8_t list option \<times> uint16_t option" where
  "pack_event_packet malloc_ok packet out_len =
     (case packet of None \<Rightarrow> (None, out_len) | Some p \<Rightarrow>
      (case out_len of None \<Rightarrow> (None, None) | Some _ \<Rightarrow>
        if unat (e_payload_len p) > MAX_EVENT_PAYLOAD_LEN then (None, out_len)
        else if e_payload_type p \<noteq> EVENT_TYPE then (None, out_len)
        else if e_meta_type p \<noteq> LORAWAN_TYPE then (None, out_len)
        else
          let len = (ucast ((1 :: 32 word) + 3 + ucast (e_payload_len p)) :: uint16_t) in
          if \<not> malloc_ok then (None, Some len)
          else
            (Some ([build_mhdr (e_meta_type p) (e_payload_type p) (e_hop_count p),
                    ucast (drop_bit 8 (ucast (e_event_id p) :: 32 word) AND 0xFF),
                    ucast (ucast (e_event_id p) AND (0xFF :: 32 word)),
                    ucast (e_event_type p)]
                   @ take (unat (e_payload_len p)) (e_event_payload p)),
             Some len)))"

definition unpack_event_packet ::
  "uint8_t list option \<Rightarrow> uint16_t \<Rightarrow> event_packet option \<Rightarrow> bool \<times> event_packet option" where
  "unpack_event_packet data len packet =
     (case data of None \<Rightarrow> (False, packet) | Some d \<Rightarrow>
      (case packet of None \<Rightarrow> (False, None) | Some p0 \<Rightarrow>
        if len < 4 then (False, packet)
        else
          (case parse_mhdr (d ! 0) True True True of None \<Rightarrow> (False, packet)
           | Some (mt, pt, hc) \<Rightarrow>
             let p1 = p0\<lparr>e_meta_type := mt, e_payload_type := pt, e_hop_count := hc\<rparr> in
             if e_payload_type p1 \<noteq> EVENT_TYPE then (False, Some p1)
             else if e_meta_type p1 \<noteq> LORAWAN_TYPE then (False, Some p1)
             else
               let id_hi = (ucast (push_bit 8 (ucast (ucast (d ! 1) :: uint16_t) :: 32 word)) :: uint16_t);
                   p2 = p1\<lparr>e_event_id := id_hi OR ucast (d ! 2),
                            e_event_type := ucast (d ! 3),
                            e_payload_len := len - 4\<rparr>
               in
               if unat (e_payload_len p2) > MAX_EVENT_PAYLOAD_LEN then (False, Some p2)
               else
                 (True, Some (p2\<lparr>e_event_payload :=
                    memcpy (e_event_payload p2) (drop 4 d) (unat (e_payload_len p2))\<rparr>)))))"

text \<open>
  What the header comments of the three structs say about their fields (hop count 0-7,
  12-bit ids, data rate 0-15, SNR -32 to 31, 4-bit TX power and delay), the discriminators
  each kind must carry, the payload cap, and the size of the payload array. An
  \<open>event_type\<close> has to fit the single byte it is sent in, as the four enumerators do.
\<close>

definition uplink_packet_valid :: "uplink_packet \<Rightarrow> bool" where
  "uplink_packet_valid p \<longleftrightarrow>
     u_meta_type p = LORAWAN_TYPE \<and> u_payload_type p = UPLINK_TYPE \<and>
     u_hop_count p < 8 \<and> u_uplink_id p < 4096 \<and> u_data_rate p < 16 \<and>
     - 32 \<le> sint (u_snr p) \<and> sint (u_snr p) \<le> 31 \<and>
     unat (u_payload_len p) \<le> MAX_PHY_PAYLOAD_LEN \<and>
     length (u_phy_payload p) = MAX_PHY_PAYLOAD_LEN"

definition downlink_packet_valid :: "downlink_packet \<Rightarrow> bool" where
  "downlink_packet_valid p \<longleftrightarrow>
     d_meta_type p = LORAWAN_TYPE \<and> d_payload_type p = DOWNLINK_TYPE \<and>
     d_hop_count p < 8 \<and> d_dwlink_id p < 4096 \<and> d_data_rate p < 16 \<and>
     d_tx_power p < 16 \<and> d_delay p < 16 \<and>
     unat (d_payload_len p) \<le> MAX_PHY_PAYLOAD_LEN \<and>
     length (d_phy_payload p) = MAX_PHY_PAYLOAD_LEN"

definition event_packet_valid :: "event_packet \<Rightarrow> bool" where
  "event_packet_valid p \<longleftrightarrow>
     e_meta_type p = LORAWAN_TYPE \<and> e_payload_type p = EVENT_TYPE \<and>
     e_hop_count p < 8 \<and> e_event_type p \<le> 0xFF \<and>
     unat (e_payload_len p) \<le> MAX_EVENT_PAYLOAD_LEN \<and>
     length (e_event_payload p) = MAX_EVENT_PAYLOAD_LEN"

text \<open>
  Encoding a packet and decoding the returned buffer, with the returned length, into the
  struct \<open>dst\<close>: \<open>None\<close> when the encoder returns \<open>NULL\<close>, otherwise the decoder's
  result. The allocation is taken to succeed.
\<close>

definition uplink_roundtrip ::
  "uplink_packet \<Rightarrow> uplink_packet \<Rightarrow> (bool \<times> uplink_packet option) option" where
  "uplink_roundtrip p dst =
     (case pack_uplink_packet True (Some p) (Some 0) of
        (Some buffer, Some out_len) \<Rightarrow> Some (unpack_uplink_packet (Some buffer) out_len (Some dst))
      | _ \<Rightarrow> None)"

definition downlink_roundtrip ::
  "bool \<Rightarrow> downlink_packet \<Rightarrow> downlink_packet \<Rightarrow> (bool \<times> downlink_packet option) option" where
  "downlink_roundtrip big_endian p dst =
     (case pack_downlink_packet big_endian True (Some p) (Some 0) of
        (Some buffer, Some out_len) \<Rightarrow>
          Some (unpack_downlink_packet big_endian (Some buffer) out_len (Some dst))
      | _ \<Rightarrow> None)"

definition event_roundtrip ::
  "event_packet \<Rightarrow> event_packet \<Rightarrow> (bool \<times> event_packet option) option" where
  "event_roundtrip p dst =
     (case pack_event_packet True (Some p) (Some 0) of
        (Some buffer, Some out_len) \<Rightarrow> Some (unpack_event_packet (Some buffer) out_len (Some dst))
      | _ \<Rightarrow> None)"

text \<open>Concrete packets used in the examples below.\<close>

definition example_uplink :: "uint8_t list \<Rightarrow> uplink_packet" where
  "example_uplink rest =
     \<lparr>u_meta_type = 0x07, u_payload_type = 0x00, u_hop_count = 2, u_uplink_id = 0xABC,
      u_data_rate = 5, u_rssi = - 80, u_snr = 7, u_channel = 3,
      u_phy_payload = 0xDE # 0xAD # rest, u_payload_len = 2\<rparr>"

definition example_downlink :: "uint8_t \<Rightarrow> downlink_packet" where
  "example_downlink tx_power =
     \<lparr>d_meta_type = 0x07, d_payload_type = 0x01, d_hop_count = 1, d_dwlink_id = 0x123,
      d_data_rate = 3, d_frequency = 868100000, d_tx_power = tx_power, d_delay = 1,
      d_count_us = 5000000, d_phy_payload = replicate 245 0, d_payload_len = 0\<rparr>"

definition example_event :: event_packet where
  "example_event =
     \<lparr>e_meta_type = 0x07, e_payload_type = 0x03, e_hop_count = 0, e_event_id = 0x0102,
      e_event_type = 0x01, e_event_payload = replicate 240 0, e_payload_len = 0\<rparr>"

section \<open>SX126x hardware abstraction layer (onehub/libhub/lorahub\_hal.c)\<close>

text \<open>
  Constants of \<open>basic_hal.h\<close> and \<open>lorahub_hal.h\<close>. Return codes are C \<open>int\<close>s that never
  overflow and are kept as \<open>int\<close>; the parameter codes are compared with \<open>uint8_t\<close> fields.
\<close>

definition LGW_HAL_SUCCESS :: int where
  "LGW_HAL_SUCCESS = 0"

definition LGW_HAL_ERROR :: int where
  "LGW_HAL_ERROR = - 1"

definition MOD_UNDEFINED :: uint8_t where
  "MOD_UNDEFINED = 0"

definition BW_UNDEFINED :: uint8_t where
  "BW_UNDEFINED = 0"

definition BW_500KHZ :: uint8_t where
  "BW_500KHZ = 0x06"

definition BW_250KHZ :: uint8_t where
  "BW_250KHZ = 0x05"

definition BW_125KHZ :: uint8_t where
  "BW_125KHZ = 0x04"

definition BW_800KHZ :: uint8_t where
  "BW_800KHZ = 0x0F"

definition BW_400KHZ :: uint8_t where
  "BW_400KHZ = 0x0E"

definition DR_UNDEFINED :: uint8_t where
  "DR_UNDEFINED = 0"

definition DR_LORA_SF5 :: uint8_t where
  "DR_LORA_SF5 = 5"

definition DR_LORA_SF6 :: uint8_t where
  "DR_LORA_SF6 = 6"

definition DR_LORA_SF7 :: uint8_t where
  "DR_LORA_SF7 = 7"

definition DR_LORA_SF8 :: uint8_t where
  "DR_LORA_SF8 = 8"

definition DR_LORA_SF9 :: uint8_t where
  "DR_LORA_SF9 = 9"

definition DR_LORA_SF10 :: uint8_t where
  "DR_LORA_SF10 = 10"

definition DR_LORA_SF11 :: uint8_t where
  "DR_LORA_SF11 = 11"

definition DR_LORA_SF12 :: uint8_t where
  "DR_LORA_SF12 = 12"

definition CR_UNDEFINED :: uint8_t where
  "CR_UNDEFINED = 0"

definition CR_LORA_4_5 :: uint8_t where
  "CR_LORA_4_5 = 0x01"

definition CR_LORA_4_6 :: uint8_t where
  "CR_LORA_4_6 = 0x02"

definition CR_LORA_4_7 :: uint8_t where
  "CR_LORA_4_7 = 0x03"

definition CR_LORA_4_8 :: uint8_t where
  "CR_LORA_4_8 = 0x04"

definition STAT_UNDEFINED :: uint8_t where
  "STAT_UNDEFINED = 0x00"

definition STAT_CRC_BAD :: uint8_t where
  "STAT_CRC_BAD = 0x11"

definition STAT_CRC_OK :: uint8_t where
  "STAT_CRC_OK = 0x10"

definition TX_STATUS_UNKNOWN :: uint8_t where
  "TX_STATUS_UNKNOWN = 0"

definition TX_FREE :: uint8_t where
  "TX_FREE = 2"

definition TX_SCHEDULED :: uint8_t where
  "TX_SCHEDULED = 3"

definition TX_EMITTING :: uint8_t where
  "TX_EMITTING = 4"

definition RX_STATUS_UNKNOWN :: uint8_t where
  "RX_STATUS_UNKNOWN = 0"

definition RX_ON :: uint8_t where
  "RX_ON = 2"

definition RX_SUSPENDED :: uint8_t where
  "RX_SUSPENDED = 3"

definition SX126X_RTC_FREQ_IN_HZ :: uint32_t where
  "SX126X_RTC_FREQ_IN_HZ = 64000"

definition IS_LORA_BW :: "uint8_t \<Rightarrow> bool" where
  "IS_LORA_BW bw \<longleftrightarrow>
     bw = BW_125KHZ \<or> bw = BW_250KHZ \<or> bw = BW_500KHZ \<or> bw = BW_400KHZ \<or> bw = BW_800KHZ"

definition IS_LORA_DR :: "uint8_t \<Rightarrow> bool" where
  "IS_LORA_DR dr \<longleftrightarrow>
     dr = DR_LORA_SF5 \<or> dr = DR_LORA_SF6 \<or> dr = DR_LORA_SF7 \<or> dr = DR_LORA_SF8 \<or>
     dr = DR_LORA_SF9 \<or> dr = DR_LORA_SF10 \<or> dr = DR_LORA_SF11 \<or> dr = DR_LORA_SF12"

definition IS_LORA_CR :: "uint8_t \<Rightarrow> bool" where
  "IS_LORA_CR cr \<longleftrightarrow>
     cr = CR_LORA_4_5 \<or> cr = CR_LORA_4_6 \<or> cr = CR_LORA_4_7 \<or> cr = CR_LORA_4_8"

text \<open>
  The configuration structs and the packet structs. Fields carry a prefix per struct
  (\<open>rf_\<close>, \<open>if_\<close>, \<open>rxp_\<close>, \<open>txp_\<close>). The two-element array \<open>datarate\<close> is a pair.
  A \<open>float\<close> is held as the real number it stands for: the code only copies floats and
  converts an \<open>int8_t\<close> to one, which is exact.
\<close>

record sx126x_conf_rxrf_s =
  rf_freq_hz :: uint32_t
  rf_rssi_offset :: real
  rf_tx_enable :: bool

record sx126x_conf_rxif_s =
  if_modulation :: uint8_t
  if_bandwidth :: uint8_t
  if_datarate :: "uint8_t \<times> uint8_t"
  if_coderate :: uint8_t

record lgw_pkt_rx_s =
  rxp_freq_hz :: uint32_t
  rxp_freq_offset :: "32 word"
  rxp_if_chain :: uint8_t
  rxp_status :: uint8_t
  rxp_count_us :: uint32_t
  rxp_rf_chain :: uint8_t
  rxp_modem_id :: uint8_t
  rxp_modulation :: uint8_t
  rxp_bandwidth :: uint8_t
  rxp_datarate :: uint32_t
  rxp_coderate :: uint8_t
  rxp_rssic :: real
  rxp_rssis :: real
  rxp_snr :: real
  rxp_snr_min :: real
  rxp_snr_max :: real
  rxp_crc :: uint16_t
  rxp_size :: uint16_t
  rxp_payload :: "uint8_t list"
  rxp_ftime_received :: bool
  rxp_ftime :: uint32_t

record lgw_pkt_tx_s =
  txp_freq_hz :: uint32_t
  txp_tx_mode :: uint8_t
  txp_count_us :: uint32_t
  txp_rf_chain :: uint8_t
  txp_rf_power :: int8_t
  txp_modulation :: uint8_t
  txp_freq_offset :: int8_t
  txp_bandwidth :: uint8_t
  txp_datarate :: uint32_t
  txp_coderate :: uint8_t
  txp_invert_pol :: bool
  txp_f_dev :: uint8_t
  txp_preamble :: uint16_t
  txp_no_crc :: bool
  txp_no_header :: bool
  txp_size :: uint16_t
  txp_payload :: "uint8_t list"

text \<open>The file-scope variables of \<open>lorahub_hal.c\<close> and their initial values.\<close>

record hal_state =
  is_started :: bool
  rx_status :: uint8_t
  tx_status :: uint8_t
  rxrf_conf :: sx126x_conf_rxrf_s
  rxif_conf :: sx126x_conf_rxif_s

definition hal_state_init :: hal_state where
  "hal_state_init =
     \<lparr>is_started = False, rx_status = RX_STATUS_UNKNOWN, tx_status = TX_STATUS_UNKNOWN,
      rxrf_conf = \<lparr>rf_freq_hz = 0, rf_rssi_offset = 0, rf_tx_enable = False\<rparr>,
      rxif_conf = \<lparr>if_modulation = MOD_UNDEFINED, if_bandwidth = BW_UNDEFINED,
                   if_datarate = (DR_UNDEFINED, DR_UNDEFINED), if_coderate = CR_UNDEFINED\<rparr>\<rparr>"

text \<open>
  The two configuration setters return the status code and the state afterwards. What they
  print is not part of the model.
\<close>

definition sx126x_rxrf_setconf :: "sx126x_conf_rxrf_s option \<Rightarrow> hal_state \<Rightarrow> int \<times> hal_state" where
  "sx126x_rxrf_setconf conf s =
     (case conf of None \<Rightarrow> (LGW_HAL_ERROR, s) | Some c \<Rightarrow>
        if is_started s = True then (LGW_HAL_ERROR, s)
        else (LGW_HAL_SUCCESS, s\<lparr>rxrf_conf := c\<rparr>))"

definition sx126x_rxif_setconf :: "sx126x_conf_rxif_s option \<Rightarrow> hal_state \<Rightarrow> int \<times> hal_state" where
  "sx126x_rxif_setconf conf s =
     (case conf of None \<Rightarrow> (LGW_HAL_ERROR, s) | Some c \<Rightarrow>
        if is_started s = True then (LGW_HAL_ERROR, s)
        else if IS_LORA_DR (fst (if_datarate c)) = False then (LGW_HAL_ERROR, s)
        else if snd (if_datarate c) \<noteq> DR_UNDEFINED \<and> IS_LORA_DR (snd (if_datarate c)) = False
          then (LGW_HAL_ERROR, s)
        else if IS_LORA_BW (if_bandwidth c) = False then (LGW_HAL_ERROR, s)
        else if IS_LORA_CR (if_coderate c) = False then (LGW_HAL_ERROR, s)
        else (LGW_HAL_SUCCESS, s\<lparr>rxif_conf := c\<rparr>))"

subsection \<open>Reception (liblora/onehub/lorahub/lorahub\_hal\_rx.c and \<open>sx126x_receive\<close>)\<close>

text \<open>
  The radio abstraction layer (\<open>ral.h\<close>) is not among the sources. Its interrupt masks are
  parameters, and what its calls answer during one HAL call is an environment record:
  the interrupt register read by \<open>ral_get_and_clear_irq_status\<close>, whether
  \<open>ral_get_lora_rx_pkt_status\<close> and \<open>ral_get_pkt_payload\<close> return \<open>RAL_STATUS_OK\<close>, and
  the values they store. \<open>sx126x_get_lora_bw_in_hz\<close> is commented out in
  \<open>lorahub_aux.c\<close> and is a parameter as well. A failing \<open>ral_get_pkt_payload\<close> is taken
  to leave the buffer and the size untouched. LED and radio commands change nothing the
  model holds.
\<close>

record ral_h =
  RAL_IRQ_TX_DONE :: "16 word"
  RAL_IRQ_RX_DONE :: "16 word"
  RAL_IRQ_RX_CRC_ERROR :: "16 word"
  RAL_IRQ_RX_TIMEOUT :: "16 word"

record radio_rx_env =
  env_irq_regs :: "16 word"
  env_pkt_status_ok :: bool
  env_rssi_pkt_in_dbm :: "16 word"
  env_snr_pkt_in_db :: "16 word"
  env_payload_ok :: bool
  env_payload :: "uint8_t list"
  env_size :: uint16_t
  env_lora_bw_in_hz :: "uint8_t \<Rightarrow> uint32_t"

text \<open>The file-scope variables of \<open>lorahub_hal_rx.c\<close>.\<close>

record rx_state =
  irq_fired :: bool
  irq_count_us :: uint32_t
  flag_rx_done :: bool
  flag_rx_crc_error :: bool
  flag_rx_timeout :: bool
  main_detector_sf :: uint8_t
  side_detector_sf :: uint8_t
  configured_freq_hz :: uint32_t
  configured_bw :: uint8_t

definition radio_irq_process :: "ral_h \<Rightarrow> radio_rx_env \<Rightarrow> rx_state \<Rightarrow> rx_state" where
  "radio_irq_process ral env r =
     (if irq_fired r = True then
        let r1 = r\<lparr>irq_fired := False\<rparr>;
            irq_regs = env_irq_regs env;
            r2 = (if irq_regs AND RAL_IRQ_RX_DONE ral = RAL_IRQ_RX_DONE ral
                  then r1\<lparr>flag_rx_done := True\<rparr> else r1);
            r3 = (if irq_regs AND RAL_IRQ_RX_CRC_ERROR ral = RAL_IRQ_RX_CRC_ERROR ral
                  then r2\<lparr>flag_rx_crc_error := True\<rparr> else r2)
        in (if irq_regs AND RAL_IRQ_RX_TIMEOUT ral = RAL_IRQ_RX_TIMEOUT ral
            then r3\<lparr>flag_rx_timeout := True\<rparr> else r3)
      else r)"

text \<open>The cells behind the output pointers of \<open>sx126x_radio_get_pkt\<close>.\<close>

record get_pkt_out =
  o_irq_received :: bool
  o_count_us :: uint32_t
  o_sf :: uint8_t
  o_rssi :: int8_t
  o_snr :: int8_t
  o_status :: uint8_t
  o_size :: uint16_t
  o_payload :: "uint8_t list"

text \<open>
  \<open>sx126x_radio_get_pkt ral env payload r\<close>: \<open>payload\<close> is the caller's buffer. The result
  is the return value, the output cells and the file-scope variables afterwards. A failing
  \<open>ASSERT_RAL_RC\<close> returns \<open>-1\<close> at once, leaving the flags set.
\<close>

definition sx126x_radio_get_pkt ::
  "ral_h \<Rightarrow> radio_rx_env \<Rightarrow> uint8_t list \<Rightarrow> rx_state \<Rightarrow> int \<times> get_pkt_out \<times> rx_state" where
  "sx126x_radio_get_pkt ral env payload r0 =
     (let nb_pkt_received = (0 :: int);
          rssi_offset = (0 :: 16 word);
          out0 = \<lparr>o_irq_received = False, o_count_us = 0, o_sf = main_detector_sf r0,
                  o_rssi = 0, o_snr = 0, o_status = STAT_UNDEFINED, o_size = 0,
                  o_payload = payload\<rparr>;
          r = radio_irq_process ral env r0
      in
      if flag_rx_done r = True \<or> flag_rx_crc_error r = True then
        let out1 = out0\<lparr>o_irq_received := True, o_count_us := irq_count_us r\<rparr> in
        if \<not> env_pkt_status_ok env then (- 1, out1, r)
        else
          let out2 = out1\<lparr>o_rssi := ucast (env_rssi_pkt_in_dbm env + rssi_offset),
                            o_snr := ucast (env_snr_pkt_in_db env)\<rparr> in
          if flag_rx_crc_error r = True then
            (nb_pkt_received + 1, out2\<lparr>o_status := STAT_CRC_BAD\<rparr>,
             r\<lparr>flag_rx_done := False, flag_rx_crc_error := False\<rparr>)
          else
            let out3 = out2\<lparr>o_status := STAT_CRC_OK\<rparr> in
            if \<not> env_payload_ok env then (- 1, out3, r)
            else
              (nb_pkt_received + 1,
               out3\<lparr>o_payload := memcpy payload (env_payload env)
                                    (min 256 (length (env_payload env))),
                     o_size := env_size env\<rparr>,
               r\<lparr>flag_rx_done := False, flag_rx_crc_error := False\<rparr>)
      else if flag_rx_timeout r = True then
        (nb_pkt_received, out0\<lparr>o_irq_received := True\<rparr>, r\<lparr>flag_rx_timeout := False\<rparr>)
      else (nb_pkt_received, out0, r))"

text \<open>
  \<open>(1 << sf) * 1000000 / bw_in_hz\<close>: the product is an \<open>int\<close> that the division by a
  \<open>uint32_t\<close> converts to unsigned; it is taken modulo \<open>2 ^ 32\<close>.
\<close>

definition sx126x_radio_timestamp_correction ::
  "radio_rx_env \<Rightarrow> uint8_t \<Rightarrow> uint8_t \<Rightarrow> uint32_t" where
  "sx126x_radio_timestamp_correction env sf bw =
     (let bw_in_hz = env_lora_bw_in_hz env bw in
      if bw_in_hz \<noteq> 0 then (push_bit (unat sf) 1 * 1000000) div bw_in_hz else 0)"

definition lgw_pkt_rx_zero :: lgw_pkt_rx_s where
  "lgw_pkt_rx_zero =
     \<lparr>rxp_freq_hz = 0, rxp_freq_offset = 0, rxp_if_chain = 0, rxp_status = 0,
      rxp_count_us = 0, rxp_rf_chain = 0, rxp_modem_id = 0, rxp_modulation = 0,
      rxp_bandwidth = 0, rxp_datarate = 0, rxp_coderate = 0, rxp_rssic = 0, rxp_rssis = 0,
      rxp_snr = 0, rxp_snr_min = 0, rxp_snr_max = 0, rxp_crc = 0, rxp_size = 0,
      rxp_payload = replicate 256 0, rxp_ftime_received = False, rxp_ftime = 0\<rparr>"

text \<open>
  \<open>sx126x_receive ral env max_pkt pkt_data (h, r)\<close>: \<open>pkt_data\<close> is the caller's array,
  which has at least the one cell \<open>pkt_data[0]\<close> the function writes to. The result is the
  return value, the array and the file-scope variables of both files afterwards.
\<close>

definition sx126x_receive ::
  "ral_h \<Rightarrow> radio_rx_env \<Rightarrow> uint8_t \<Rightarrow> lgw_pkt_rx_s list \<Rightarrow> hal_state \<times> rx_state \<Rightarrow>
     int \<times> lgw_pkt_rx_s list \<times> hal_state \<times> rx_state" where
  "sx126x_receive ral env max_pkt pkt_data st =
     (case st of (h, r) \<Rightarrow>
      if is_started h = False then (LGW_HAL_ERROR, pkt_data, h, r)
      else
        let p0 = lgw_pkt_rx_zero in
        (case sx126x_radio_get_pkt ral env (rxp_payload p0) r of
           (nb_packet_received, out, r') \<Rightarrow>
             let p1 = p0\<lparr>rxp_payload := o_payload out\<rparr>;
                 p2 = (if nb_packet_received > 0 then
                         let q = p1\<lparr>rxp_count_us := o_count_us out,
                                    rxp_freq_hz := rf_freq_hz (rxrf_conf h),
                                    rxp_if_chain := 0,
                                    rxp_rf_chain := 0,
                                    rxp_status := o_status out,
                                    rxp_modulation := if_modulation (rxif_conf h),
                                    rxp_datarate := ucast (o_sf out),
                                    rxp_bandwidth := if_bandwidth (rxif_conf h),
                                    rxp_coderate := if_coderate (rxif_conf h),
                                    rxp_rssic := real_of_int (sint (o_rssi out)),
                                    rxp_snr := real_of_int (sint (o_snr out)),
                                    rxp_size := o_size out\<rparr>;
                             count_us_correction =
                               sx126x_radio_timestamp_correction env
                                 (ucast (rxp_datarate q)) (rxp_bandwidth q)
                         in q\<lparr>rxp_count_us := rxp_count_us q - count_us_correction\<rparr>
                       else p1)
             in (nb_packet_received, pkt_data[0 := p2], h, r')))"

subsection \<open>Transmission (\<open>sx126x_send\<close>)\<close>

definition TCXO_STARTUP_TIME_US :: "uint32_t \<Rightarrow> uint32_t \<Rightarrow> uint32_t" where
  "TCXO_STARTUP_TIME_US tick freq = tick * 1000000 div freq"

text \<open>
  The signed distance \<open>(int32_t) (pkt_data->count_us - count_us_now)\<close> of the first loop
  of \<open>sx126x_send\<close>, and the condition under which that loop goes round again.
\<close>

definition count_us_ahead :: "uint32_t \<Rightarrow> uint32_t \<Rightarrow> int" where
  "count_us_ahead count_us count_us_now = sint (count_us - count_us_now)"

definition send_wait_again :: "uint32_t \<Rightarrow> uint32_t \<Rightarrow> uint32_t \<Rightarrow> bool" where
  "send_wait_again count_us tcxo_startup_time_us count_us_now \<longleftrightarrow>
     count_us_ahead count_us count_us_now > sint tcxo_startup_time_us"

text \<open>
  The \<open>do ... while\<close> loop that waits for the time to send. Each round reads the counter
  with \<open>sx126x_get_instcnt\<close>; the successive readings are the list. The loop ends with the
  last reading and the readings not consumed, or is still running (\<open>None\<close>) when the
  readings are used up.
\<close>

fun send_wait :: "uint32_t \<Rightarrow> uint32_t \<Rightarrow> uint32_t list \<Rightarrow> (uint32_t \<times> uint32_t list) option" where
  "send_wait count_us tcxo_startup_time_us [] = None"
| "send_wait count_us tcxo_startup_time_us (count_us_now # readings) =
     (if send_wait_again count_us tcxo_startup_time_us count_us_now
      then send_wait count_us tcxo_startup_time_us readings
      else Some (count_us_now, readings))"

text \<open>
  The loop that waits for \<open>TX_DONE\<close>: one pair per round, whether
  \<open>ral_get_and_clear_irq_status\<close> returned \<open>RAL_STATUS_OK\<close> and the register it read.
  \<open>Some None\<close> is the early \<open>return -1\<close> of \<open>ASSERT_RAL_RC\<close>; otherwise the loop ends
  with \<open>flag_tx_done\<close> and \<open>flag_tx_timeout\<close>.
\<close>

fun send_tx_done_wait :: "ral_h \<Rightarrow> (bool \<times> 16 word) list \<Rightarrow> (bool \<times> bool) option option" where
  "send_tx_done_wait ral [] = None"
| "send_tx_done_wait ral ((ok, irq_regs) # rounds) =
     (if \<not> ok then Some None
      else
        let flag_tx_done = (irq_regs AND RAL_IRQ_TX_DONE ral = RAL_IRQ_TX_DONE ral);
            flag_tx_timeout = (irq_regs AND RAL_IRQ_RX_TIMEOUT ral = RAL_IRQ_RX_TIMEOUT ral)
        in if flag_tx_done = False \<and> flag_tx_timeout = False then send_tx_done_wait ral rounds
           else Some (Some (flag_tx_done, flag_tx_timeout)))"

text \<open>
  What the radio layer answers during one \<open>sx126x_send\<close>: the result of
  \<open>sx126x_radio_configure_tx\<close>, the TCXO startup time in ticks stored by
  \<open>ral_sx126x_bsp_get_xosc_cfg\<close>, the counter readings of the first loop, whether
  \<open>ral_set_tx\<close> succeeds, and the rounds of the second loop.
\<close>

record radio_tx_env =
  env_configure_tx :: int
  env_tcxo_startup_time_in_tick :: uint32_t
  env_instcnt :: "uint32_t list"
  env_set_tx_ok :: bool
  env_tx_irq :: "(bool \<times> 16 word) list"

definition sx126x_send ::
  "ral_h \<Rightarrow> radio_tx_env \<Rightarrow> lgw_pkt_tx_s \<Rightarrow> hal_state \<Rightarrow> (int \<times> hal_state) option" where
  "sx126x_send ral env pkt_data h =
     (if is_started h = False then Some (LGW_HAL_ERROR, h)
      else
        let h1 = h\<lparr>rx_status := RX_SUSPENDED\<rparr> in
        if env_configure_tx env = LGW_HAL_ERROR then Some (LGW_HAL_ERROR, h1)
        else
          let h2 = h1\<lparr>tx_status := TX_SCHEDULED\<rparr>;
              tcxo_startup_time_us =
                TCXO_STARTUP_TIME_US (env_tcxo_startup_time_in_tick env) SX126X_RTC_FREQ_IN_HZ
          in
          (case send_wait (txp_count_us pkt_data) tcxo_startup_time_us (env_instcnt env) of
             None \<Rightarrow> None
           | Some _ \<Rightarrow>
               if \<not> env_set_tx_ok env then Some (- 1, h2)
               else
                 let h3 = h2\<lparr>tx_status := TX_EMITTING\<rparr> in
                 (case send_tx_done_wait ral (env_tx_irq env) of
                    None \<Rightarrow> None
                  | Some None \<Rightarrow> Some (- 1, h3)
                  | Some (Some (flag_tx_done, flag_tx_timeout)) \<Rightarrow>
                      Some (if flag_tx_timeout = False then LGW_HAL_SUCCESS else LGW_HAL_ERROR,
                            h3\<lparr>tx_status := TX_FREE, rx_status := RX_ON\<rparr>))))"

text \<open>Concrete configurations, radio answers and states, for the examples below.\<close>

definition example_rxrf_conf :: sx126x_conf_rxrf_s where
  "example_rxrf_conf = \<lparr>rf_freq_hz = 868100000, rf_rssi_offset = - 215, rf_tx_enable = True\<rparr>"

definition example_rxif_conf :: "uint8_t \<Rightarrow> sx126x_conf_rxif_s" where
  "example_rxif_conf sf =
     \<lparr>if_modulation = 0x10, if_bandwidth = BW_125KHZ, if_datarate = (sf, DR_UNDEFINED),
      if_coderate = CR_LORA_4_5\<rparr>"

definition example_ral :: ral_h where
  "example_ral =
     \<lparr>RAL_IRQ_TX_DONE = 0x01, RAL_IRQ_RX_DONE = 0x02, RAL_IRQ_RX_CRC_ERROR = 0x40,
      RAL_IRQ_RX_TIMEOUT = 0x200\<rparr>"

definition example_rx_env :: radio_rx_env where
  "example_rx_env =
     \<lparr>env_irq_regs = 0x02, env_pkt_status_ok = True, env_rssi_pkt_in_dbm = - 80,
      env_snr_pkt_in_db = 7, env_payload_ok = True, env_payload = [0xDE, 0xAD],
      env_size = 2, env_lora_bw_in_hz = (\<lambda>bw. if bw = BW_125KHZ then 125000 else 0)\<rparr>"

definition example_rx_state :: rx_state where
  "example_rx_state =
     \<lparr>irq_fired = True, irq_count_us = 5000000, flag_rx_done = False,
      flag_rx_crc_error = False, flag_rx_timeout = False, main_detector_sf = 7,
      side_detector_sf = 0, configured_freq_hz = 868100000, configured_bw = BW_125KHZ\<rparr>"

definition example_started :: hal_state where
  "example_started =
     hal_state_init\<lparr>is_started := True, rx_status := RX_ON, tx_status := TX_FREE,
       rxrf_conf := example_rxrf_conf, rxif_conf := example_rxif_conf DR_LORA_SF7\<rparr>"

section \<open>Gateway data structures (inc/gwcfg.h)\<close>

text \<open>
  \<open>NB_PKT_MAX\<close> depends on whether the build defines \<open>SX1301MOD\<close>.
\<close>

definition NB_PKT_MAX :: "bool \<Rightarrow> nat" where
  "NB_PKT_MAX SX1301MOD = (if SX1301MOD then 16 else 32)"

datatype serv_type = semtech | ttn | mqtt | pkt | relay | delay | gwtraf

text \<open>
  The reception batch \<open>rxpkts_s\<close> (without its list link) and the \<open>info\<close> block of a
  service descriptor \<open>serv_s\<close>. The key is a \<open>char *\<close> that may be \<open>NULL\<close>.
\<close>

record rxpkts_s =
  entry_us :: uint32_t
  stamps :: uint8_t
  nb_pkt :: uint8_t
  rxpkt :: "lgw_pkt_rx_s list"

record serv_info =
  info_type :: serv_type
  info_stamp :: uint8_t
  info_enabled :: bool
  info_name :: string
  info_key :: "string option"

text \<open>
  A value of the struct type \<open>rxpkts_s\<close> in a build: its member \<open>rxpkt\<close> is an array of
  \<open>NB_PKT_MAX\<close> packets. The packets a batch holds are the first \<open>nb_pkt\<close> cells of
  that array.
\<close>

definition rxpkts_s_typed :: "bool \<Rightarrow> rxpkts_s \<Rightarrow> bool" where
  "rxpkts_s_typed SX1301MOD b \<longleftrightarrow> length (rxpkt b) = NB_PKT_MAX SX1301MOD"

definition rxpkts_held :: "rxpkts_s \<Rightarrow> lgw_pkt_rx_s list" where
  "rxpkts_held b = take (unat (nb_pkt b)) (rxpkt b)"

text \<open>
  Modelled from the spec: the service lifecycle of the coordinator, whose code is not among
  the sources (only the two struct declarations are). The gateway keeps a "list of
  services (ordered insertion, unique by name and by stamp)"; the coordinator "assigns
  each service a unique stamp bit (0..63)" and, when a service is stopped, "removes the
  descriptor". The spec does not say which of the free bits a service gets, so the bit is
  an argument of the registration; a registration that would break the uniqueness of
  names or stamps, or leave the range, registers nothing.
\<close>

definition register_service :: "nat \<Rightarrow> serv_info \<Rightarrow> serv_info list \<Rightarrow> serv_info list" where
  "register_service stamp_bit s servs =
     (if stamp_bit < 64 \<and> of_nat stamp_bit \<notin> info_stamp ` set servs \<and>
         info_name s \<notin> info_name ` set servs
      then servs @ [s\<lparr>info_stamp := of_nat stamp_bit\<rparr>]
      else servs)"

definition remove_service :: "string \<Rightarrow> serv_info list \<Rightarrow> serv_info list" where
  "remove_service name servs = filter (\<lambda>s. info_name s \<noteq> name) servs"

text \<open>
  Modelled from the spec: what the coordinator does to the service list over the run of
  the gateway is a sequence of registrations and removals, starting from the empty list.
\<close>

datatype coord_op = Register nat serv_info | Remove string

fun coord_step :: "coord_op \<Rightarrow> serv_info list \<Rightarrow> serv_info list" where
  "coord_step (Register stamp_bit s) servs = register_service stamp_bit s servs"
| "coord_step (Remove name) servs = remove_service name servs"

definition coordinator :: "coord_op list \<Rightarrow> serv_info list" where
  "coordinator ops = fold coord_step ops []"

text \<open>
  Modelled from the spec: the creation of a batch, whose code is not among the sources.
  RX ingest "constructs a reception batch, stamps it with the current microsecond counter,
  sets stamp bitmap to zero". The bitmap is the field \<open>stamps\<close> of the source, a
  \<open>uint8_t\<close>.
\<close>

definition new_rxpkts :: "uint32_t \<Rightarrow> uint8_t \<Rightarrow> lgw_pkt_rx_s list \<Rightarrow> rxpkts_s" where
  "new_rxpkts now n pkts = \<lparr>entry_us = now, stamps = 0, nb_pkt = n, rxpkt = pkts\<rparr>"

text \<open>
  Modelled from the spec: "each service sets its bit after consuming"; the stamp is "the
  bit position used in reception batches". The bit is set in the field \<open>stamps\<close> of the
  source, a \<open>uint8_t\<close>.
\<close>

definition set_stamp :: "serv_info \<Rightarrow> rxpkts_s \<Rightarrow> rxpkts_s" where
  "set_stamp s b = b\<lparr>stamps := stamps b OR push_bit (unat (info_stamp s)) 1\<rparr>"

text \<open>
  Modelled from the spec: a batch "whose stamp bit for this service is clear" or set.
\<close>

definition has_stamp :: "serv_info \<Rightarrow> rxpkts_s \<Rightarrow> bool" where
  "has_stamp s b \<longleftrightarrow> bit (stamps b) (unat (info_stamp s))"

text \<open>
  A fresh, empty batch and a service as configured, for the examples below. One run of
  the coordinator registers three services with the bits 0, 3 and 5, and goes on to remove
  the first and to register another with the freed bit 0. Another run registers nine
  services with the bits 0 to 8. Each run comes with the service list it leads to.
\<close>

definition example_batch :: rxpkts_s where
  "example_batch = \<lparr>entry_us = 0, stamps = 0, nb_pkt = 0, rxpkt = replicate 32 lgw_pkt_rx_zero\<rparr>"

definition example_service :: "string \<Rightarrow> serv_info" where
  "example_service name =
     \<lparr>info_type = semtech, info_stamp = 0, info_enabled = True, info_name = name,
      info_key = None\<rparr>"

definition example_ops :: "coord_op list" where
  "example_ops =
     [Register 0 (example_service ''ttn''), Register 3 (example_service ''local''),
      Register 5 (example_service ''mirror'')]"

definition example_registered :: "serv_info list" where
  "example_registered =
     [(example_service ''ttn'')\<lparr>info_stamp := 0\<rparr>,
      (example_service ''local'')\<lparr>info_stamp := 3\<rparr>,
      (example_service ''mirror'')\<lparr>info_stamp := 5\<rparr>]"

definition example_later :: "coord_op list" where
  "example_later = [Remove ''ttn'', Register 0 (example_service ''backup'')]"

definition example_registered_later :: "serv_info list" where
  "example_registered_later =
     [(example_service ''local'')\<lparr>info_stamp := 3\<rparr>,
      (example_service ''mirror'')\<lparr>info_stamp := 5\<rparr>,
      (example_service ''backup'')\<lparr>info_stamp := 0\<rparr>]"

definition example_ops9 :: "coord_op list" where
  "example_ops9 =
     [Register 0 (example_service ''server0''),
      Register 1 (example_service ''server1''),
      Register 2 (example_service ''server2''),
      Register 3 (example_service ''server3''),
      Register 4 (example_service ''server4''),
      Register 5 (example_service ''server5''),
      Register 6 (example_service ''server6''),
      Register 7 (example_service ''server7''),
      Register 8 (example_service ''server8'')]"

definition example_registered9 :: "serv_info list" where
  "example_registered9 =
     [(example_service ''server0'')\<lparr>info_stamp := 0\<rparr>,
      (example_service ''server1'')\<lparr>info_stamp := 1\<rparr>,
      (example_service ''server2'')\<lparr>info_stamp := 2\<rparr>,
      (example_service ''server3'')\<lparr>info_stamp := 3\<rparr>,
      (example_service ''server4'')\<lparr>info_stamp := 4\<rparr>,
      (example_service ''server5'')\<lparr>info_stamp := 5\<rparr>,
      (example_service ''server6'')\<lparr>info_stamp := 6\<rparr>,
      (example_service ''server7'')\<lparr>info_stamp := 7\<rparr>,
      (example_service ''server8'')\<lparr>info_stamp := 8\<rparr>]"

section \<open>Properties of the relay protocol\<close>

lemma mask_numerals:
  "(0x03 :: 'a::len word) = mask 2"
  "(0x07 :: 'a::len word) = mask 3"
  "(0x0F :: 'a::len word) = mask 4"
  "(0xFF :: 'a::len word) = mask 8"
  by (simp_all add: mask_eq_exp_minus_1)

lemma byte_masks32:
  "(0x0000FF00 :: 32 word) = push_bit 8 (mask 8)"
  "(0x00FF0000 :: 32 word) = push_bit 16 (mask 8)"
  "(0xFF000000 :: 32 word) = push_bit 24 (mask 8)"
  by (simp_all add: mask_eq_exp_minus_1)

lemma bit_below:
  fixes i :: "'a::len word"
  assumes "i < 2 ^ k" and "bit i n"
  shows "n < k"
proof -
  have "take_bit k i = i"
    using assms(1) by (simp add: take_bit_eq_mask less_mask_eq)
  then have "bit (take_bit k i) n"
    using assms(2) by simp
  then show ?thesis
    by (simp add: bit_take_bit_iff)
qed

lemma id_hi_lo:
  fixes i :: "16 word" and dr :: "8 word"
  assumes "i < 4096"
  shows "(ucast (push_bit 4 (ucast (ucast (drop_bit 4 (ucast i :: 32 word) AND 0xFF) :: 8 word) :: 32 word) OR
         (drop_bit 4 (ucast (ucast (push_bit 4 (ucast i AND (0x0F :: 32 word)) OR
                           (ucast dr AND 0x0F)) :: 8 word)) AND 0x0F)) :: 16 word) = i"
proof -
  have *: "\<And>n. bit i n \<Longrightarrow> n < 12"
    using bit_below [of i 12] assms by simp
  show ?thesis
    unfolding mask_numerals take_bit_eq_mask [symmetric]
    by (rule bit_word_eqI) (auto simp add: bit_simps dest: *)
qed

lemma low_nibble:
  fixes dr :: "8 word"
  assumes "dr < 16"
  shows "(ucast (push_bit 4 (x :: 32 word) OR (ucast dr AND 0x0F)) :: 8 word) AND 0x0F = dr"
proof -
  have *: "\<And>n. bit dr n \<Longrightarrow> n < 4"
    using bit_below [of dr 4] assms by simp
  show ?thesis
    unfolding mask_numerals take_bit_eq_mask [symmetric]
    by (rule bit_word_eqI) (auto simp add: bit_simps dest: *)
qed

lemma high_nibble:
  fixes tp :: "8 word"
  assumes "tp < 16"
  shows "drop_bit 4 (ucast (push_bit 4 (ucast tp AND (0x0F :: 32 word)) OR (y AND 0x0F)) :: 8 word) AND 0x0F = tp"
proof -
  have *: "\<And>n. bit tp n \<Longrightarrow> n < 4"
    using bit_below [of tp 4] assms by simp
  show ?thesis
    unfolding mask_numerals take_bit_eq_mask [symmetric]
    by (rule bit_word_eqI) (auto simp add: bit_simps dest: *)
qed

lemma parse_build_mhdr:
  assumes "pt \<le> 3" and "hc < 8"
  shows "parse_mhdr (build_mhdr 7 pt hc) True True True = Some (7, pt, hc)"
proof -
  have p: "\<And>n. bit pt n \<Longrightarrow> n < 2"
    using bit_below [of pt 2] assms(1) by (simp add: word_le_nat_alt word_less_nat_alt)
  have h: "\<And>n. bit hc n \<Longrightarrow> n < 3"
    using bit_below [of hc 3] assms(2) by simp
  have m: "drop_bit 5 (ucast (build_mhdr 7 pt hc) :: 32 word) AND 0x07 = 7"
    unfolding build_mhdr_def mask_numerals take_bit_eq_mask [symmetric]
    by (rule bit_word_eqI) (auto simp add: bit_simps dest: p h)
  have t: "drop_bit 3 (ucast (build_mhdr 7 pt hc) :: 32 word) AND 0x03 = pt"
    unfolding build_mhdr_def mask_numerals take_bit_eq_mask [symmetric]
    by (rule bit_word_eqI) (auto simp add: bit_simps dest: p h)
  have c: "build_mhdr 7 pt hc AND 0x07 = hc"
    unfolding build_mhdr_def mask_numerals take_bit_eq_mask [symmetric]
    by (rule bit_word_eqI) (auto simp add: bit_simps dest: p h)
  show ?thesis
    by (simp add: parse_mhdr_def m t c)
qed

lemma out_len_eq:
  fixes n :: "16 word"
  assumes "unat n \<le> 245"
  shows "(ucast ((6 :: 32 word) + ucast n) :: 16 word) = 6 + n"
    and "(ucast ((12 :: 32 word) + ucast n) :: 16 word) = 12 + n"
    and "(ucast ((4 :: 32 word) + ucast n) :: 16 word) = 4 + n"
  using assms
  by (simp_all add: word_unat_eq_iff unsigned_ucast_eq unat_word_ariths take_bit_eq_mod)

lemma len_not_less:
  fixes n :: "16 word"
  assumes "unat n \<le> 245"
  shows "\<not> 6 + n < 6" and "\<not> 12 + n < 12" and "\<not> 4 + n < 4"
  using assms by (simp_all add: word_less_nat_alt unat_word_ariths)

text \<open>
  On a little-endian host \<open>be_to_host32\<close> reverses the four bytes: bit \<open>n\<close> of the result
  is the bit at the same place of the mirrored byte of the argument.
\<close>

lemma bit_byte_swap:
  "bit (be_to_host32 False v) n \<longleftrightarrow>
     n < 32 \<and> bit v (if n < 8 then n + 24 else if n < 16 then n + 8
                      else if n < 24 then n - 8 else n - 24)"
  unfolding be_to_host32_def mask_numerals byte_masks32 take_bit_eq_mask [symmetric]
  apply (cases "n < 8"; cases "n < 16"; cases "n < 24"; cases "n < 32")
                 apply (simp_all add: bit_simps)
   apply (auto dest: bit_imp_le_length simp: add.commute)
  done

lemma be_to_host32_invol: "be_to_host32 b (host_to_be32 b v) = v"
proof (cases b)
  case True
  then show ?thesis
    by (simp add: be_to_host32_def host_to_be32_def)
next
  case False
  have "be_to_host32 False (be_to_host32 False v) = v"
    by (rule bit_word_eqI) (auto simp add: bit_byte_swap)
  then show ?thesis
    using False by (simp add: host_to_be32_def)
qed

lemma be32_bytes:
  fixes w :: "32 word"
  shows "push_bit 24 (ucast (ucast (drop_bit 24 w AND 0xFF) :: 8 word)) OR
         push_bit 16 (ucast (ucast (drop_bit 16 w AND 0xFF) :: 8 word)) OR
         push_bit 8 (ucast (ucast (drop_bit 8 w AND 0xFF) :: 8 word)) OR
         ucast (ucast (w AND 0xFF) :: 8 word) = w"
  unfolding mask_numerals take_bit_eq_mask [symmetric]
  apply (rule bit_word_eqI)
  subgoal for n
    apply (cases "n < 8"; cases "n < 16"; cases "n < 24")
           apply (simp_all add: bit_simps)
      apply arith+
    done
  done

lemma event_id_bytes:
  fixes i :: "16 word"
  shows "(ucast (push_bit 8 (ucast (ucast (ucast (drop_bit 8 (ucast i :: 32 word) AND 0xFF) :: 8 word) :: 16 word) :: 32 word)) :: 16 word)
           OR ucast (ucast (ucast i AND (0xFF :: 32 word)) :: 8 word) = i"
  unfolding mask_numerals take_bit_eq_mask [symmetric]
  apply (rule bit_word_eqI)
  subgoal for n
    apply (cases "n < 8")
     apply (simp_all add: bit_simps)
    apply arith+
    done
  done

lemma event_type_byte:
  fixes t :: "32 word"
  assumes "t \<le> 0xFF"
  shows "ucast (ucast t :: 8 word) = t"
proof -
  have "t < 2 ^ 8"
    using assms by (simp add: word_le_nat_alt word_less_nat_alt)
  then have *: "\<And>n. bit t n \<Longrightarrow> n < 8"
    using bit_below [of t 8] by simp
  show ?thesis
    by (rule bit_word_eqI) (auto simp add: bit_simps dest: *)
qed

subsection \<open>Round trip\<close>

text \<open>
  Each codec pair, run on a packet that satisfies the struct's documented ranges, gives
  back the packet: every scalar field and the first \<open>payload_len\<close> bytes of the payload.
  The array cells beyond \<open>payload_len\<close> are not sent, so they keep what the destination
  struct held.
\<close>

lemma uplink_rt:
  assumes "uplink_packet_valid P"
  shows "uplink_roundtrip P Q =
       Some (True, Some (P\<lparr>u_phy_payload :=
         memcpy (u_phy_payload Q) (u_phy_payload P) (unat (u_payload_len P))\<rparr>))"
proof -
  from assms have v: "u_meta_type P = 7" "u_payload_type P = 0" "u_hop_count P < 8"
    "u_uplink_id P < 4096" "u_data_rate P < 16" "- 32 \<le> sint (u_snr P)" "sint (u_snr P) \<le> 31"
    "unat (u_payload_len P) \<le> 245" "length (u_phy_payload P) = 245"
    by (simp_all add: uplink_packet_valid_def LORAWAN_TYPE_def UPLINK_TYPE_def
        MAX_PHY_PAYLOAD_LEN_def)
  define b where "b = [build_mhdr 7 0 (u_hop_count P),
      ucast (drop_bit 4 (ucast (u_uplink_id P) :: 32 word) AND 0xFF),
      ucast (push_bit 4 (ucast (u_uplink_id P) AND (0x0F :: 32 word)) OR
             (ucast (u_data_rate P) AND 0x0F)),
      u_rssi P, u_snr P, u_channel P] @ take (unat (u_payload_len P)) (u_phy_payload P)"
  have pk: "pack_uplink_packet True (Some P) (Some 0) = (Some b, Some (6 + u_payload_len P))"
    using v
    by (simp add: pack_uplink_packet_def MAX_PHY_PAYLOAD_LEN_def LORAWAN_TYPE_def
        UPLINK_TYPE_def out_len_eq Let_def b_def del: push_bit_and)
  have h: "parse_mhdr (b ! 0) True True True = Some (7, 0, u_hop_count P)"
    using parse_build_mhdr [of 0 "u_hop_count P"] v by (simp add: b_def)
  have "unpack_uplink_packet (Some b) (6 + u_payload_len P) (Some Q) =
      (True, Some (P\<lparr>u_phy_payload :=
         memcpy (u_phy_payload Q) (u_phy_payload P) (unat (u_payload_len P))\<rparr>))"
    unfolding unpack_uplink_packet_def
    using v len_not_less(1) [of "u_payload_len P"]
    by (simp add: h LORAWAN_TYPE_def UPLINK_TYPE_def MAX_PHY_PAYLOAD_LEN_def Let_def)
       (simp add: b_def id_hi_lo low_nibble memcpy_def del: push_bit_and)
  then show ?thesis
    by (simp add: uplink_roundtrip_def pk)
qed

lemma downlink_rt:
  assumes "downlink_packet_valid P"
  shows "downlink_roundtrip be P Q =
       Some (True, Some (P\<lparr>d_phy_payload :=
         memcpy (d_phy_payload Q) (d_phy_payload P) (unat (d_payload_len P))\<rparr>))"
proof -
  from assms have v: "d_meta_type P = 7" "d_payload_type P = 1" "d_hop_count P < 8"
    "d_dwlink_id P < 4096" "d_data_rate P < 16" "d_tx_power P < 16" "d_delay P < 16"
    "unat (d_payload_len P) \<le> 245" "length (d_phy_payload P) = 245"
    by (simp_all add: downlink_packet_valid_def LORAWAN_TYPE_def DOWNLINK_TYPE_def
        MAX_PHY_PAYLOAD_LEN_def)
  define fb where "fb = host_to_be32 be (d_frequency P)"
  define cb where "cb = host_to_be32 be (d_count_us P)"
  define b where "b = [build_mhdr 7 1 (d_hop_count P),
      ucast (drop_bit 4 (ucast (d_dwlink_id P) :: 32 word) AND 0xFF),
      ucast (push_bit 4 (ucast (d_dwlink_id P) AND (0x0F :: 32 word)) OR
             (ucast (d_data_rate P) AND 0x0F)),
      ucast (drop_bit 24 fb AND 0xFF), ucast (drop_bit 16 fb AND 0xFF),
      ucast (drop_bit 8 fb AND 0xFF), ucast (fb AND 0xFF),
      ucast (push_bit 4 (ucast (d_tx_power P) AND (0x0F :: 32 word)) OR
             (ucast (d_delay P) AND 0x0F)),
      ucast (drop_bit 24 cb AND 0xFF), ucast (drop_bit 16 cb AND 0xFF),
      ucast (drop_bit 8 cb AND 0xFF), ucast (cb AND 0xFF)]
      @ take (unat (d_payload_len P)) (d_phy_payload P)"
  have pk: "pack_downlink_packet be True (Some P) (Some 0) =
      (Some b, Some (12 + d_payload_len P))"
    using v
    by (simp add: pack_downlink_packet_def MAX_PHY_PAYLOAD_LEN_def LORAWAN_TYPE_def
        DOWNLINK_TYPE_def out_len_eq Let_def b_def fb_def cb_def del: push_bit_and)
  have h: "parse_mhdr (b ! 0) True True True = Some (7, 1, d_hop_count P)"
    using parse_build_mhdr [of 1 "d_hop_count P"] v by (simp add: b_def)
  have f: "be_to_host32 be fb = d_frequency P" "be_to_host32 be cb = d_count_us P"
    by (simp_all add: fb_def cb_def be_to_host32_invol)
  have "unpack_downlink_packet be (Some b) (12 + d_payload_len P) (Some Q) =
      (True, Some (P\<lparr>d_phy_payload :=
         memcpy (d_phy_payload Q) (d_phy_payload P) (unat (d_payload_len P))\<rparr>))"
    unfolding unpack_downlink_packet_def
    using v len_not_less(2) [of "d_payload_len P"]
    by (simp add: h LORAWAN_TYPE_def DOWNLINK_TYPE_def MAX_PHY_PAYLOAD_LEN_def Let_def)
       (simp add: b_def id_hi_lo low_nibble high_nibble be32_bytes f memcpy_def
          del: push_bit_and)
  then show ?thesis
    by (simp add: downlink_roundtrip_def pk)
qed

lemma event_rt:
  assumes "event_packet_valid P"
  shows "event_roundtrip P Q =
       Some (True, Some (P\<lparr>e_event_payload :=
         memcpy (e_event_payload Q) (e_event_payload P) (unat (e_payload_len P))\<rparr>))"
proof -
  from assms have v: "e_meta_type P = 7" "e_payload_type P = 3" "e_hop_count P < 8"
    "e_event_type P \<le> 0xFF" "unat (e_payload_len P) \<le> 240" "length (e_event_payload P) = 240"
    by (simp_all add: event_packet_valid_def LORAWAN_TYPE_def EVENT_TYPE_def
        MAX_EVENT_PAYLOAD_LEN_def)
  define b where "b = [build_mhdr 7 3 (e_hop_count P),
      ucast (drop_bit 8 (ucast (e_event_id P) :: 32 word) AND 0xFF),
      ucast (ucast (e_event_id P) AND (0xFF :: 32 word)),
      ucast (e_event_type P)] @ take (unat (e_payload_len P)) (e_event_payload P)"
  have pk: "pack_event_packet True (Some P) (Some 0) = (Some b, Some (4 + e_payload_len P))"
    using v
    by (simp add: pack_event_packet_def MAX_EVENT_PAYLOAD_LEN_def LORAWAN_TYPE_def
        EVENT_TYPE_def out_len_eq Let_def b_def del: push_bit_and)
  have h: "parse_mhdr (b ! 0) True True True = Some (7, 3, e_hop_count P)"
    using parse_build_mhdr [of 3 "e_hop_count P"] v by (simp add: b_def)
  have "unpack_event_packet (Some b) (4 + e_payload_len P) (Some Q) =
      (True, Some (P\<lparr>e_event_payload :=
         memcpy (e_event_payload Q) (e_event_payload P) (unat (e_payload_len P))\<rparr>))"
    unfolding unpack_event_packet_def
    using v len_not_less(3) [of "e_payload_len P"]
    by (simp add: h LORAWAN_TYPE_def EVENT_TYPE_def MAX_EVENT_PAYLOAD_LEN_def Let_def)
       (simp add: b_def event_id_bytes event_type_byte memcpy_def del: push_bit_and)
  then show ?thesis
    by (simp add: event_roundtrip_def pk)
qed

text \<open>
  Claim C1, as amended. For every uplink, downlink and event packet that is valid
  (\<open>meta_type = 0b111\<close>, the payload type of its kind, \<open>hop_count < 8\<close>, a 12-bit id, a
  4-bit data rate, an uplink SNR in \<open>-32..31\<close>, a payload length within the cap of its
  kind, and in addition a 4-bit downlink \<open>tx_power\<close> and \<open>delay\<close> and an \<open>event_type\<close>
  that fits one byte), packing succeeds and unpacking the bytes produced succeeds and
  yields the packet: all fields, \<open>payload_len\<close> and the first \<open>payload_len\<close> payload bytes
  are those of the packet packed, on a host of either byte order. Payload array cells
  beyond \<open>payload_len\<close> keep the contents of the destination struct.
\<close>

theorem relay_roundtrip:
  assumes "uplink_packet_valid pu" and "downlink_packet_valid pd" and "event_packet_valid pe"
  shows "uplink_roundtrip pu qu =
           Some (True, Some (pu\<lparr>u_phy_payload :=
             memcpy (u_phy_payload qu) (u_phy_payload pu) (unat (u_payload_len pu))\<rparr>)) \<and>
         downlink_roundtrip big_endian pd qd =
           Some (True, Some (pd\<lparr>d_phy_payload :=
             memcpy (d_phy_payload qd) (d_phy_payload pd) (unat (d_payload_len pd))\<rparr>)) \<and>
         event_roundtrip pe qe =
           Some (True, Some (pe\<lparr>e_event_payload :=
             memcpy (e_event_payload qe) (e_event_payload pe) (unat (e_payload_len pe))\<rparr>))"
  using assms by (simp add: uplink_rt downlink_rt event_rt)

text \<open>
  The round trip at three concrete packets, each decoded into a struct that differs from
  it in some fields and agrees with it on the unused tail of the payload array: the result
  is the packet itself.
\<close>

theorem relay_roundtrip_witness:
  "uplink_packet_valid (example_uplink (replicate 243 0)) \<and>
   downlink_packet_valid (example_downlink 5) \<and>
   event_packet_valid example_event \<and>
   uplink_roundtrip (example_uplink (replicate 243 0))
       ((example_uplink (replicate 243 0))\<lparr>u_uplink_id := 0, u_rssi := 0\<rparr>) =
     Some (True, Some (example_uplink (replicate 243 0))) \<and>
   downlink_roundtrip False (example_downlink 5) (example_downlink 9) =
     Some (True, Some (example_downlink 5)) \<and>
   event_roundtrip example_event (example_event\<lparr>e_event_id := 0\<rparr>) =
     Some (True, Some example_event)"
proof -
  have u: "uplink_packet_valid (example_uplink (replicate 243 0))"
    by (simp add: uplink_packet_valid_def example_uplink_def LORAWAN_TYPE_def UPLINK_TYPE_def
        MAX_PHY_PAYLOAD_LEN_def)
  have d: "downlink_packet_valid (example_downlink 5)"
    by (simp add: downlink_packet_valid_def example_downlink_def LORAWAN_TYPE_def
        DOWNLINK_TYPE_def MAX_PHY_PAYLOAD_LEN_def)
  have e: "event_packet_valid example_event"
    by (simp add: event_packet_valid_def example_event_def LORAWAN_TYPE_def EVENT_TYPE_def
        MAX_EVENT_PAYLOAD_LEN_def)
  show ?thesis
    using u d e
      relay_roundtrip [OF u d e,
        of "(example_uplink (replicate 243 0))\<lparr>u_uplink_id := 0, u_rssi := 0\<rparr>" False
        "example_downlink 9" "example_event\<lparr>e_event_id := 0\<rparr>"]
    by (simp add: example_uplink_def example_downlink_def example_event_def memcpy_def)
qed

text \<open>
  Claim C1 as stated does not bound \<open>tx_power\<close>. A downlink packet that meets every
  condition the claim lists and has \<open>tx_power = 16\<close> comes back with \<open>tx_power = 0\<close>:
  only the low four bits are sent.
\<close>

theorem relay_roundtrip_counterexample:
  "d_meta_type (example_downlink 16) = 0x07 \<and>
   d_payload_type (example_downlink 16) = 0x01 \<and>
   d_hop_count (example_downlink 16) < 8 \<and>
   d_dwlink_id (example_downlink 16) < 4096 \<and>
   d_data_rate (example_downlink 16) < 16 \<and>
   unat (d_payload_len (example_downlink 16)) \<le> 245 \<and>
   downlink_roundtrip False (example_downlink 16) (example_downlink 16) =
     Some (True, Some (example_downlink 0)) \<and>
   downlink_roundtrip False (example_downlink 16) (example_downlink 16) \<noteq>
     Some (True, Some (example_downlink 16))"
  by (simp add: downlink_roundtrip_def pack_downlink_packet_def unpack_downlink_packet_def
      example_downlink_def build_mhdr_def parse_mhdr_def host_to_be32_def be_to_host32_def
      memcpy_def MAX_PHY_PAYLOAD_LEN_def LORAWAN_TYPE_def DOWNLINK_TYPE_def Let_def)

subsection \<open>Encoder and decoder checks\<close>

text \<open>
  Claim C2. Packing the uplink packet with \<open>meta_type = 0b111\<close>, \<open>payload_type = 0b00\<close>,
  \<open>hop_count = 2\<close>, \<open>uplink_id = 0xABC\<close>, \<open>data_rate = 5\<close>, \<open>rssi = -80\<close>, \<open>snr = 7\<close>,
  \<open>channel = 3\<close> and the two payload bytes \<open>DE AD\<close> returns the eight bytes
  \<open>E2 AB C5 B0 07 03 DE AD\<close> and stores 8 in \<open>out_len\<close>, whatever the rest of the payload
  array and the previous content of \<open>out_len\<close>.
\<close>

theorem pack_uplink_example:
  "pack_uplink_packet True (Some (example_uplink rest)) (Some l) =
     (Some [0xE2, 0xAB, 0xC5, 0xB0, 0x07, 0x03, 0xDE, 0xAD], Some 8)"
  by (simp add: pack_uplink_packet_def example_uplink_def build_mhdr_def
      MAX_PHY_PAYLOAD_LEN_def UPLINK_TYPE_def LORAWAN_TYPE_def)

text \<open>
  Claim C3. For every buffer of at least six bytes whose first byte carries the LoRaWAN
  meta type and the uplink payload type, \<open>unpack_uplink_packet\<close> returns false whenever
  the SNR byte, read as a signed 8-bit integer, is below \<open>-32\<close> or above \<open>31\<close>.
\<close>

theorem unpack_uplink_snr_range:
  assumes "6 \<le> len"
    and "parse_mhdr (data ! 0) True True True = Some (LORAWAN_TYPE, UPLINK_TYPE, hop)"
    and "sint (data ! 4) < - 32 \<or> 31 < sint (data ! 4)"
  shows "fst (unpack_uplink_packet (Some data) len packet) = False"
  using assms
  by (cases packet) (auto simp add: unpack_uplink_packet_def Let_def not_le [symmetric])

text \<open>The two boundary values: SNR bytes \<open>0xDF\<close> (\<open>-33\<close>) and \<open>0x20\<close> (\<open>+32\<close>) are rejected.\<close>

theorem unpack_uplink_snr_range_witness:
  "(6 :: uint16_t) \<le> 6 \<and>
   parse_mhdr ([0xE0, 0x12, 0x34, 0xB0, 0xDF, 0x03] ! 0) True True True =
     Some (LORAWAN_TYPE, UPLINK_TYPE, 0) \<and>
   sint ([0xE0, 0x12, 0x34, 0xB0, 0xDF, 0x03 :: uint8_t] ! 4) = - 33 \<and>
   fst (unpack_uplink_packet (Some [0xE0, 0x12, 0x34, 0xB0, 0xDF, 0x03]) 6
          (Some (example_uplink []))) = False \<and>
   parse_mhdr ([0xE0, 0x12, 0x34, 0xB0, 0x20, 0x03] ! 0) True True True =
     Some (LORAWAN_TYPE, UPLINK_TYPE, 0) \<and>
   sint ([0xE0, 0x12, 0x34, 0xB0, 0x20, 0x03 :: uint8_t] ! 4) = 32 \<and>
   fst (unpack_uplink_packet (Some [0xE0, 0x12, 0x34, 0xB0, 0x20, 0x03]) 6
          (Some (example_uplink []))) = False"
proof -
  have l: "(6 :: uint16_t) \<le> 6"
    by simp
  have h1: "parse_mhdr ([0xE0, 0x12, 0x34, 0xB0, 0xDF, 0x03] ! 0) True True True =
      Some (LORAWAN_TYPE, UPLINK_TYPE, 0)"
    by (simp add: parse_mhdr_def LORAWAN_TYPE_def UPLINK_TYPE_def)
  have h2: "parse_mhdr ([0xE0, 0x12, 0x34, 0xB0, 0x20, 0x03] ! 0) True True True =
      Some (LORAWAN_TYPE, UPLINK_TYPE, 0)"
    by (simp add: parse_mhdr_def LORAWAN_TYPE_def UPLINK_TYPE_def)
  have s1: "sint ([0xE0, 0x12, 0x34, 0xB0, 0xDF, 0x03 :: uint8_t] ! 4) = - 33"
    by simp
  have s2: "sint ([0xE0, 0x12, 0x34, 0xB0, 0x20, 0x03 :: uint8_t] ! 4) = 32"
    by simp
  have r1: "sint ([0xE0, 0x12, 0x34, 0xB0, 0xDF, 0x03 :: uint8_t] ! 4) < - 32 \<or>
      31 < sint ([0xE0, 0x12, 0x34, 0xB0, 0xDF, 0x03 :: uint8_t] ! 4)"
    by simp
  have r2: "sint ([0xE0, 0x12, 0x34, 0xB0, 0x20, 0x03 :: uint8_t] ! 4) < - 32 \<or>
      31 < sint ([0xE0, 0x12, 0x34, 0xB0, 0x20, 0x03 :: uint8_t] ! 4)"
    by simp
  show ?thesis
    using l h1 h2 s1 s2
      unpack_uplink_snr_range [OF l h1 r1, of "Some (example_uplink [])"]
      unpack_uplink_snr_range [OF l h2 r2, of "Some (example_uplink [])"]
    by blast
qed

text \<open>
  Claim C4. For each packet kind with the right discriminators, the pack function returns
  a buffer when \<open>payload_len\<close> is 0 and when it is the maximum of the kind (245 for uplink
  and downlink, 240 for event), provided the allocation succeeds, and returns \<open>NULL\<close> when
  \<open>payload_len\<close> is one more than the maximum.
\<close>

theorem pack_payload_len_bounds:
  assumes "u_meta_type pu = LORAWAN_TYPE" and "u_payload_type pu = UPLINK_TYPE"
    and "d_meta_type pd = LORAWAN_TYPE" and "d_payload_type pd = DOWNLINK_TYPE"
    and "e_meta_type pe = LORAWAN_TYPE" and "e_payload_type pe = EVENT_TYPE"
  shows "fst (pack_uplink_packet True (Some (pu\<lparr>u_payload_len := 0\<rparr>)) (Some l)) \<noteq> None \<and>
         fst (pack_uplink_packet True (Some (pu\<lparr>u_payload_len := 245\<rparr>)) (Some l)) \<noteq> None \<and>
         fst (pack_uplink_packet m (Some (pu\<lparr>u_payload_len := 246\<rparr>)) (Some l)) = None \<and>
         fst (pack_downlink_packet be True (Some (pd\<lparr>d_payload_len := 0\<rparr>)) (Some l)) \<noteq> None \<and>
         fst (pack_downlink_packet be True (Some (pd\<lparr>d_payload_len := 245\<rparr>)) (Some l)) \<noteq> None \<and>
         fst (pack_downlink_packet be m (Some (pd\<lparr>d_payload_len := 246\<rparr>)) (Some l)) = None \<and>
         fst (pack_event_packet True (Some (pe\<lparr>e_payload_len := 0\<rparr>)) (Some l)) \<noteq> None \<and>
         fst (pack_event_packet True (Some (pe\<lparr>e_payload_len := 240\<rparr>)) (Some l)) \<noteq> None \<and>
         fst (pack_event_packet m (Some (pe\<lparr>e_payload_len := 241\<rparr>)) (Some l)) = None"
  using assms
  by (simp add: pack_uplink_packet_def pack_downlink_packet_def pack_event_packet_def
      MAX_PHY_PAYLOAD_LEN_def MAX_EVENT_PAYLOAD_LEN_def Let_def)

text \<open>The bounds at the three example packets.\<close>

theorem pack_payload_len_bounds_witness:
  "u_meta_type (example_uplink []) = LORAWAN_TYPE \<and>
   u_payload_type (example_uplink []) = UPLINK_TYPE \<and>
   d_meta_type (example_downlink 5) = LORAWAN_TYPE \<and>
   d_payload_type (example_downlink 5) = DOWNLINK_TYPE \<and>
   e_meta_type example_event = LORAWAN_TYPE \<and>
   e_payload_type example_event = EVENT_TYPE \<and>
   fst (pack_uplink_packet True (Some ((example_uplink [])\<lparr>u_payload_len := 0\<rparr>)) (Some 0)) \<noteq> None \<and>
   fst (pack_uplink_packet True (Some ((example_uplink [])\<lparr>u_payload_len := 245\<rparr>)) (Some 0)) \<noteq> None \<and>
   fst (pack_uplink_packet True (Some ((example_uplink [])\<lparr>u_payload_len := 246\<rparr>)) (Some 0)) = None \<and>
   fst (pack_downlink_packet False True (Some ((example_downlink 5)\<lparr>d_payload_len := 0\<rparr>)) (Some 0)) \<noteq> None \<and>
   fst (pack_downlink_packet False True (Some ((example_downlink 5)\<lparr>d_payload_len := 245\<rparr>)) (Some 0)) \<noteq> None \<and>
   fst (pack_downlink_packet False True (Some ((example_downlink 5)\<lparr>d_payload_len := 246\<rparr>)) (Some 0)) = None \<and>
   fst (pack_event_packet True (Some (example_event\<lparr>e_payload_len := 0\<rparr>)) (Some 0)) \<noteq> None \<and>
   fst (pack_event_packet True (Some (example_event\<lparr>e_payload_len := 240\<rparr>)) (Some 0)) \<noteq> None \<and>
   fst (pack_event_packet True (Some (example_event\<lparr>e_payload_len := 241\<rparr>)) (Some 0)) = None"
proof -
  have u: "u_meta_type (example_uplink []) = LORAWAN_TYPE"
    "u_payload_type (example_uplink []) = UPLINK_TYPE"
    by (simp_all add: example_uplink_def LORAWAN_TYPE_def UPLINK_TYPE_def)
  have d: "d_meta_type (example_downlink 5) = LORAWAN_TYPE"
    "d_payload_type (example_downlink 5) = DOWNLINK_TYPE"
    by (simp_all add: example_downlink_def LORAWAN_TYPE_def DOWNLINK_TYPE_def)
  have e: "e_meta_type example_event = LORAWAN_TYPE"
    "e_payload_type example_event = EVENT_TYPE"
    by (simp_all add: example_event_def LORAWAN_TYPE_def EVENT_TYPE_def)
  show ?thesis
    using u d e pack_payload_len_bounds [OF u d e, of 0 True False]
    by blast
qed

text \<open>
  Claim C5. Every pack function returns \<open>NULL\<close> when the packet's meta type is not
  \<open>0b111\<close> or its payload type is not the one of the function's kind, and every unpack
  function returns false when the meta-type or payload-type field of the first byte of
  the buffer differs from those values (\<open>0b00\<close> uplink, \<open>0b01\<close> downlink, \<open>0b11\<close> event).
\<close>

theorem discriminators_enforced:
  "(u_meta_type pu \<noteq> LORAWAN_TYPE \<or> u_payload_type pu \<noteq> UPLINK_TYPE \<longrightarrow>
      fst (pack_uplink_packet m (Some pu) out_len) = None) \<and>
   (d_meta_type pd \<noteq> LORAWAN_TYPE \<or> d_payload_type pd \<noteq> DOWNLINK_TYPE \<longrightarrow>
      fst (pack_downlink_packet be m (Some pd) out_len) = None) \<and>
   (e_meta_type pe \<noteq> LORAWAN_TYPE \<or> e_payload_type pe \<noteq> EVENT_TYPE \<longrightarrow>
      fst (pack_event_packet m (Some pe) out_len) = None) \<and>
   (parse_mhdr (data ! 0) True True True = Some (meta, payload, hop) \<longrightarrow>
      (meta \<noteq> LORAWAN_TYPE \<or> payload \<noteq> UPLINK_TYPE \<longrightarrow>
         fst (unpack_uplink_packet (Some data) len qu) = False) \<and>
      (meta \<noteq> LORAWAN_TYPE \<or> payload \<noteq> DOWNLINK_TYPE \<longrightarrow>
         fst (unpack_downlink_packet be (Some data) len qd) = False) \<and>
      (meta \<noteq> LORAWAN_TYPE \<or> payload \<noteq> EVENT_TYPE \<longrightarrow>
         fst (unpack_event_packet (Some data) len qe) = False))"
proof -
  have pu: "u_meta_type pu \<noteq> LORAWAN_TYPE \<or> u_payload_type pu \<noteq> UPLINK_TYPE \<longrightarrow>
      fst (pack_uplink_packet m (Some pu) out_len) = None"
    by (cases out_len) (auto simp add: pack_uplink_packet_def Let_def)
  have pd: "d_meta_type pd \<noteq> LORAWAN_TYPE \<or> d_payload_type pd \<noteq> DOWNLINK_TYPE \<longrightarrow>
      fst (pack_downlink_packet be m (Some pd) out_len) = None"
    by (cases out_len) (auto simp add: pack_downlink_packet_def Let_def)
  have pe: "e_meta_type pe \<noteq> LORAWAN_TYPE \<or> e_payload_type pe \<noteq> EVENT_TYPE \<longrightarrow>
      fst (pack_event_packet m (Some pe) out_len) = None"
    by (cases out_len) (auto simp add: pack_event_packet_def Let_def)
  have uu: "fst (unpack_uplink_packet (Some data) len qu) = False"
    if "parse_mhdr (data ! 0) True True True = Some (meta, payload, hop)"
      and "meta \<noteq> LORAWAN_TYPE \<or> payload \<noteq> UPLINK_TYPE"
    using that by (cases qu) (auto simp add: unpack_uplink_packet_def Let_def)
  have ud: "fst (unpack_downlink_packet be (Some data) len qd) = False"
    if "parse_mhdr (data ! 0) True True True = Some (meta, payload, hop)"
      and "meta \<noteq> LORAWAN_TYPE \<or> payload \<noteq> DOWNLINK_TYPE"
    using that by (cases qd) (auto simp add: unpack_downlink_packet_def Let_def)
  have ue: "fst (unpack_event_packet (Some data) len qe) = False"
    if "parse_mhdr (data ! 0) True True True = Some (meta, payload, hop)"
      and "meta \<noteq> LORAWAN_TYPE \<or> payload \<noteq> EVENT_TYPE"
    using that by (cases qe) (auto simp add: unpack_event_packet_def Let_def)
  from pu pd pe uu ud ue show ?thesis
    by blast
qed

text \<open>
  Packets with a wrong meta type or payload type, and a buffer whose first byte \<open>0xC0\<close>
  carries meta type \<open>0b110\<close>, are rejected by every function.
\<close>

theorem discriminators_enforced_witness:
  "u_meta_type ((example_uplink [])\<lparr>u_meta_type := 6\<rparr>) \<noteq> LORAWAN_TYPE \<and>
   fst (pack_uplink_packet True (Some ((example_uplink [])\<lparr>u_meta_type := 6\<rparr>)) (Some 0)) = None \<and>
   d_payload_type ((example_downlink 5)\<lparr>d_payload_type := 0\<rparr>) \<noteq> DOWNLINK_TYPE \<and>
   fst (pack_downlink_packet False True (Some ((example_downlink 5)\<lparr>d_payload_type := 0\<rparr>))
          (Some 0)) = None \<and>
   e_payload_type (example_event\<lparr>e_payload_type := 2\<rparr>) \<noteq> EVENT_TYPE \<and>
   fst (pack_event_packet True (Some (example_event\<lparr>e_payload_type := 2\<rparr>)) (Some 0)) = None \<and>
   parse_mhdr ([0xC0, 1, 2, 3, 4, 5, 6, 7, 8, 9, 10, 11] ! 0) True True True = Some (6, 0, 0) \<and>
   (6 :: meta_type_t) \<noteq> LORAWAN_TYPE \<and>
   fst (unpack_uplink_packet (Some [0xC0, 1, 2, 3, 4, 5, 6, 7, 8, 9, 10, 11]) 12
          (Some (example_uplink []))) = False \<and>
   fst (unpack_downlink_packet False (Some [0xC0, 1, 2, 3, 4, 5, 6, 7, 8, 9, 10, 11]) 12
          (Some (example_downlink 5))) = False \<and>
   fst (unpack_event_packet (Some [0xC0, 1, 2, 3, 4, 5, 6, 7, 8, 9, 10, 11]) 12
          (Some example_event)) = False"
proof -
  have u: "u_meta_type ((example_uplink [])\<lparr>u_meta_type := 6\<rparr>) \<noteq> LORAWAN_TYPE"
    by (simp add: LORAWAN_TYPE_def)
  have d: "d_payload_type ((example_downlink 5)\<lparr>d_payload_type := 0\<rparr>) \<noteq> DOWNLINK_TYPE"
    by (simp add: DOWNLINK_TYPE_def)
  have e: "e_payload_type (example_event\<lparr>e_payload_type := 2\<rparr>) \<noteq> EVENT_TYPE"
    by (simp add: EVENT_TYPE_def)
  have h: "parse_mhdr ([0xC0, 1, 2, 3, 4, 5, 6, 7, 8, 9, 10, 11] ! 0) True True True =
      Some (6, 0, 0)"
    by (simp add: parse_mhdr_def)
  have m: "(6 :: meta_type_t) \<noteq> LORAWAN_TYPE"
    by (simp add: LORAWAN_TYPE_def)
  show ?thesis
    using u d e h m
      discriminators_enforced [of "(example_uplink [])\<lparr>u_meta_type := 6\<rparr>" True "Some 0"
        "(example_downlink 5)\<lparr>d_payload_type := 0\<rparr>" False
        "example_event\<lparr>e_payload_type := 2\<rparr>"
        "[0xC0, 1, 2, 3, 4, 5, 6, 7, 8, 9, 10, 11]" 6 0 0 12
        "Some (example_uplink [])" "Some (example_downlink 5)" "Some example_event"]
    by blast
qed

section \<open>Properties of the SX126x layer\<close>

lemma send_wait_dropWhile:
  "send_wait count_us tcxo readings =
     (case dropWhile (send_wait_again count_us tcxo) readings of
        [] \<Rightarrow> None
      | count_us_now # rest \<Rightarrow> Some (count_us_now, rest))"
  by (induction readings) simp_all

text \<open>
  While the wait loop has not ended, \<open>sx126x_send\<close> has not returned.
\<close>

lemma sx126x_send_still_waiting:
  assumes "is_started h" and "env_configure_tx env \<noteq> LGW_HAL_ERROR"
    and "send_wait (txp_count_us pkt_data)
           (TCXO_STARTUP_TIME_US (env_tcxo_startup_time_in_tick env) SX126X_RTC_FREQ_IN_HZ)
           (env_instcnt env) = None"
  shows "sx126x_send ral env pkt_data h = None"
  using assms by (simp add: sx126x_send_def Let_def)

lemma sint_sub_mod:
  fixes a b :: "32 word"
  shows "sint (a - b) =
     (let d = (uint a - uint b) mod 2 ^ 32 in if d < 2 ^ 31 then d else d - 2 ^ 32)"
proof -
  define d where "d = (uint a - uint b) mod 2 ^ 32"
  have d: "0 \<le> d" "d < 4294967296"
    by (simp_all add: d_def)
  have s: "sint (a - b) = (d + 2147483648) mod 4294967296 - 2147483648"
    by (simp add: sint_uint uint_word_ariths signed_take_bit_eq_take_bit_shift
        take_bit_eq_mod d_def)
  have "(d + 2147483648) mod 4294967296 - 2147483648 =
      (if d < 2147483648 then d else d - 4294967296)"
  proof (cases "d < 2147483648")
    case True
    then have "(d + 2147483648) mod 4294967296 = d + 2147483648"
      using d by (simp add: mod_pos_pos_trivial)
    then show ?thesis
      using True by simp
  next
    case False
    have "d + 2147483648 = d - 2147483648 + 4294967296"
      by arith
    then have "(d + 2147483648) mod 4294967296 = (d - 2147483648 + 4294967296) mod 4294967296"
      by (rule arg_cong)
    also have "\<dots> = (d - 2147483648) mod 4294967296"
      by (simp only: mod_add_self2)
    also have "\<dots> = d - 2147483648"
      using d False by (simp add: mod_pos_pos_trivial)
    finally show ?thesis
      using False by simp
  qed
  then show ?thesis
    using s by (simp add: Let_def d_def)
qed

text \<open>
  Claim C6, as amended. The target \<open>count_us\<close> of a transmit job is compared with the
  current counter in unsigned 32-bit modular arithmetic: the distance is the difference
  modulo \<open>2 ^ 32\<close> read as a signed 32-bit integer. The wait loop of \<open>sx126x_send\<close> skips
  exactly the leading counter readings at which that signed difference exceeds the TCXO
  startup time and ends at the first reading at which it does not. A job with target
  \<open>0x00000100\<close> at counter \<open>0xFFFFFF00\<close> is 512 microseconds in the future.
\<close>

theorem send_wait_modular:
  "send_wait count_us tcxo_startup_time_us readings =
     (case dropWhile (\<lambda>count_us_now.
             sint tcxo_startup_time_us < count_us_ahead count_us count_us_now) readings of
        [] \<Rightarrow> None
      | count_us_now # rest \<Rightarrow> Some (count_us_now, rest)) \<and>
   count_us_ahead count_us now =
     (let d = (uint count_us - uint now) mod 2 ^ 32 in if d < 2 ^ 31 then d else d - 2 ^ 32) \<and>
   count_us_ahead 0x00000100 0xFFFFFF00 = 512 \<and>
   send_wait_again 0x00000100 tcxo_startup_time_us 0xFFFFFF00 =
     (sint tcxo_startup_time_us < 512)"
proof -
  have "send_wait_again count_us tcxo_startup_time_us =
      (\<lambda>count_us_now. sint tcxo_startup_time_us < count_us_ahead count_us count_us_now)"
    by (rule ext) (simp add: send_wait_again_def)
  then have loop: "send_wait count_us tcxo_startup_time_us readings =
     (case dropWhile (\<lambda>count_us_now.
             sint tcxo_startup_time_us < count_us_ahead count_us count_us_now) readings of
        [] \<Rightarrow> None
      | count_us_now # rest \<Rightarrow> Some (count_us_now, rest))"
    using send_wait_dropWhile [of count_us tcxo_startup_time_us readings] by simp
  have ahead: "count_us_ahead 0x00000100 0xFFFFFF00 = 512"
    by (simp add: count_us_ahead_def)
  then have again: "send_wait_again 0x00000100 tcxo_startup_time_us 0xFFFFFF00 =
     (sint tcxo_startup_time_us < 512)"
    by (simp add: send_wait_again_def)
  show ?thesis
    using loop ahead again sint_sub_mod [of count_us now]
    by (simp add: count_us_ahead_def)
qed

text \<open>
  With a TCXO startup time of 20 ticks (312 microseconds) and target \<open>0x100\<close>, the loop
  waits at the readings \<open>0xFFFFFF00\<close> (512 ahead) and \<open>0xFFFFFF80\<close> (384 ahead) and ends
  at \<open>0xFFFFFFF0\<close> (272 ahead).
\<close>

theorem send_wait_modular_witness:
  "TCXO_STARTUP_TIME_US 20 SX126X_RTC_FREQ_IN_HZ = 312 \<and>
   send_wait 0x00000100 312 [0xFFFFFF00, 0xFFFFFF80, 0xFFFFFFF0, 0x10] =
     Some (0xFFFFFFF0, [0x10]) \<and>
   dropWhile (\<lambda>count_us_now. sint (312 :: uint32_t) < count_us_ahead 0x00000100 count_us_now)
     [0xFFFFFF00, 0xFFFFFF80, 0xFFFFFFF0, 0x10] = [0xFFFFFFF0, 0x10] \<and>
   count_us_ahead 0x00000100 0xFFFFFF80 = 384 \<and>
   send_wait_again 0x00000100 312 0xFFFFFF00"
proof -
  have t: "TCXO_STARTUP_TIME_US 20 SX126X_RTC_FREQ_IN_HZ = 312"
    by (simp add: TCXO_STARTUP_TIME_US_def SX126X_RTC_FREQ_IN_HZ_def)
  have d: "dropWhile (\<lambda>count_us_now. sint (312 :: uint32_t) < count_us_ahead 0x00000100 count_us_now)
     [0xFFFFFF00, 0xFFFFFF80, 0xFFFFFFF0, 0x10] = [0xFFFFFFF0, 0x10]"
    by (simp add: count_us_ahead_def)
  have a: "count_us_ahead 0x00000100 0xFFFFFF80 = 384"
    by (simp add: count_us_ahead_def)
  have s: "send_wait 0x00000100 312 [0xFFFFFF00, 0xFFFFFF80, 0xFFFFFFF0, 0x10] =
     Some (0xFFFFFFF0, [0x10])"
    using send_wait_modular [of "0x00000100" 312
        "[0xFFFFFF00, 0xFFFFFF80, 0xFFFFFFF0, 0x10]" "0xFFFFFF80", THEN conjunct1]
    unfolding d by simp
  have w: "send_wait_again 0x00000100 312 0xFFFFFF00"
    by (simp add: send_wait_again_def count_us_ahead_def)
  from t s d a w show ?thesis
    by blast
qed

text \<open>
  Claim C6 as stated puts the job 256 microseconds ahead. The signed difference is 512,
  and it shows: with a TCXO startup time of 20 ticks, that is 312 microseconds, the loop
  goes on waiting at counter \<open>0xFFFFFF00\<close>, which it would not for a job 256 microseconds
  ahead.
\<close>

theorem send_wait_modular_counterexample:
  "count_us_ahead 0x00000100 0xFFFFFF00 \<noteq> 256 \<and>
   count_us_ahead 0x00000100 0xFFFFFF00 = 512 \<and>
   sint (TCXO_STARTUP_TIME_US 20 SX126X_RTC_FREQ_IN_HZ) = 312 \<and>
   send_wait_again 0x00000100 (TCXO_STARTUP_TIME_US 20 SX126X_RTC_FREQ_IN_HZ) 0xFFFFFF00"
  by (simp add: count_us_ahead_def send_wait_again_def TCXO_STARTUP_TIME_US_def
      SX126X_RTC_FREQ_IN_HZ_def)

text \<open>
  Claim C9. \<open>sx126x_rxrf_setconf\<close> and \<open>sx126x_rxif_setconf\<close> return \<open>LGW_HAL_ERROR\<close>
  and leave the file-scope state (both stored configurations included) as it was whenever
  the argument is \<open>NULL\<close>, the concentrator is started, or (for \<open>rxif\<close>) the first
  datarate is not a LoRa datarate, the second is neither undefined nor a LoRa datarate,
  the bandwidth or the coderate is not a LoRa one. Otherwise they return
  \<open>LGW_HAL_SUCCESS\<close>, and whenever they do the stored configuration is the argument, every
  field of it, and nothing else has changed.
\<close>

theorem setconf_guarded:
  "sx126x_rxrf_setconf None s = (LGW_HAL_ERROR, s) \<and>
   (is_started s \<longrightarrow> sx126x_rxrf_setconf (Some crf) s = (LGW_HAL_ERROR, s)) \<and>
   (\<not> is_started s \<longrightarrow>
      sx126x_rxrf_setconf (Some crf) s = (LGW_HAL_SUCCESS, s\<lparr>rxrf_conf := crf\<rparr>)) \<and>
   (sx126x_rxrf_setconf (Some crf) s = (LGW_HAL_SUCCESS, s') \<longrightarrow>
      rxrf_conf s' = crf \<and> s' = s\<lparr>rxrf_conf := crf\<rparr>) \<and>
   sx126x_rxif_setconf None s = (LGW_HAL_ERROR, s) \<and>
   (is_started s \<or> \<not> IS_LORA_DR (fst (if_datarate cif)) \<or>
    (snd (if_datarate cif) \<noteq> DR_UNDEFINED \<and> \<not> IS_LORA_DR (snd (if_datarate cif))) \<or>
    \<not> IS_LORA_BW (if_bandwidth cif) \<or> \<not> IS_LORA_CR (if_coderate cif) \<longrightarrow>
      sx126x_rxif_setconf (Some cif) s = (LGW_HAL_ERROR, s)) \<and>
   (\<not> is_started s \<and> IS_LORA_DR (fst (if_datarate cif)) \<and>
    (snd (if_datarate cif) = DR_UNDEFINED \<or> IS_LORA_DR (snd (if_datarate cif))) \<and>
    IS_LORA_BW (if_bandwidth cif) \<and> IS_LORA_CR (if_coderate cif) \<longrightarrow>
      sx126x_rxif_setconf (Some cif) s = (LGW_HAL_SUCCESS, s\<lparr>rxif_conf := cif\<rparr>)) \<and>
   (sx126x_rxif_setconf (Some cif) s = (LGW_HAL_SUCCESS, s'') \<longrightarrow>
      rxif_conf s'' = cif \<and> s'' = s\<lparr>rxif_conf := cif\<rparr>)"
proof -
  have ne: "LGW_HAL_ERROR \<noteq> LGW_HAL_SUCCESS"
    by (simp add: LGW_HAL_ERROR_def LGW_HAL_SUCCESS_def)
  have rf: "sx126x_rxrf_setconf (Some crf) s =
      (if is_started s then (LGW_HAL_ERROR, s) else (LGW_HAL_SUCCESS, s\<lparr>rxrf_conf := crf\<rparr>))"
    by (simp add: sx126x_rxrf_setconf_def)
  have "if": "sx126x_rxif_setconf (Some cif) s =
      (if is_started s \<or> \<not> IS_LORA_DR (fst (if_datarate cif)) \<or>
          (snd (if_datarate cif) \<noteq> DR_UNDEFINED \<and> \<not> IS_LORA_DR (snd (if_datarate cif))) \<or>
          \<not> IS_LORA_BW (if_bandwidth cif) \<or> \<not> IS_LORA_CR (if_coderate cif)
       then (LGW_HAL_ERROR, s) else (LGW_HAL_SUCCESS, s\<lparr>rxif_conf := cif\<rparr>))"
    by (simp add: sx126x_rxif_setconf_def)
  have n: "sx126x_rxrf_setconf None s = (LGW_HAL_ERROR, s)"
    "sx126x_rxif_setconf None s = (LGW_HAL_ERROR, s)"
    by (simp_all add: sx126x_rxrf_setconf_def sx126x_rxif_setconf_def)
  have rf_ok: "sx126x_rxrf_setconf (Some crf) s = (LGW_HAL_SUCCESS, s') \<longrightarrow>
      rxrf_conf s' = crf \<and> s' = s\<lparr>rxrf_conf := crf\<rparr>"
    using ne by (auto simp add: rf split: if_splits)
  have if_ok: "sx126x_rxif_setconf (Some cif) s = (LGW_HAL_SUCCESS, s'') \<longrightarrow>
      rxif_conf s'' = cif \<and> s'' = s\<lparr>rxif_conf := cif\<rparr>"
    using ne by (auto simp add: "if" split: if_splits)
  show ?thesis
    using n rf_ok if_ok by (simp add: rf "if")
qed

text \<open>
  A fresh state accepts both configurations and stores them; a started state refuses
  them; a first datarate of 3 is refused.
\<close>

theorem setconf_guarded_witness:
  "\<not> is_started hal_state_init \<and>
   sx126x_rxrf_setconf (Some example_rxrf_conf) hal_state_init =
     (LGW_HAL_SUCCESS, hal_state_init\<lparr>rxrf_conf := example_rxrf_conf\<rparr>) \<and>
   rxrf_conf (hal_state_init\<lparr>rxrf_conf := example_rxrf_conf\<rparr>) = example_rxrf_conf \<and>
   IS_LORA_DR (fst (if_datarate (example_rxif_conf DR_LORA_SF7))) \<and>
   snd (if_datarate (example_rxif_conf DR_LORA_SF7)) = DR_UNDEFINED \<and>
   IS_LORA_BW (if_bandwidth (example_rxif_conf DR_LORA_SF7)) \<and>
   IS_LORA_CR (if_coderate (example_rxif_conf DR_LORA_SF7)) \<and>
   sx126x_rxif_setconf (Some (example_rxif_conf DR_LORA_SF7)) hal_state_init =
     (LGW_HAL_SUCCESS, hal_state_init\<lparr>rxif_conf := example_rxif_conf DR_LORA_SF7\<rparr>) \<and>
   rxif_conf (hal_state_init\<lparr>rxif_conf := example_rxif_conf DR_LORA_SF7\<rparr>) =
     example_rxif_conf DR_LORA_SF7 \<and>
   is_started example_started \<and>
   sx126x_rxrf_setconf (Some example_rxrf_conf) example_started =
     (LGW_HAL_ERROR, example_started) \<and>
   sx126x_rxif_setconf (Some (example_rxif_conf DR_LORA_SF7)) example_started =
     (LGW_HAL_ERROR, example_started) \<and>
   \<not> IS_LORA_DR (fst (if_datarate (example_rxif_conf 3))) \<and>
   sx126x_rxif_setconf (Some (example_rxif_conf 3)) hal_state_init =
     (LGW_HAL_ERROR, hal_state_init)"
proof -
  have off: "\<not> is_started hal_state_init"
    by (simp add: hal_state_init_def)
  have on: "is_started example_started"
    by (simp add: example_started_def)
  have ok: "IS_LORA_DR (fst (if_datarate (example_rxif_conf DR_LORA_SF7)))"
    "snd (if_datarate (example_rxif_conf DR_LORA_SF7)) = DR_UNDEFINED"
    "IS_LORA_BW (if_bandwidth (example_rxif_conf DR_LORA_SF7))"
    "IS_LORA_CR (if_coderate (example_rxif_conf DR_LORA_SF7))"
    by (simp_all add: example_rxif_conf_def IS_LORA_DR_def IS_LORA_BW_def IS_LORA_CR_def)
  have bad: "\<not> IS_LORA_DR (fst (if_datarate (example_rxif_conf 3)))"
    by (simp add: example_rxif_conf_def IS_LORA_DR_def DR_LORA_SF5_def DR_LORA_SF6_def
        DR_LORA_SF7_def DR_LORA_SF8_def DR_LORA_SF9_def DR_LORA_SF10_def DR_LORA_SF11_def
        DR_LORA_SF12_def)
  note a = setconf_guarded [of hal_state_init example_rxrf_conf
      "hal_state_init\<lparr>rxrf_conf := example_rxrf_conf\<rparr>" "example_rxif_conf DR_LORA_SF7"
      "hal_state_init\<lparr>rxif_conf := example_rxif_conf DR_LORA_SF7\<rparr>"]
  note b = setconf_guarded [of example_started example_rxrf_conf example_started
      "example_rxif_conf DR_LORA_SF7" example_started]
  note c = setconf_guarded [of hal_state_init example_rxrf_conf hal_state_init
      "example_rxif_conf 3" hal_state_init]
  have s1: "rxrf_conf (hal_state_init\<lparr>rxrf_conf := example_rxrf_conf\<rparr>) = example_rxrf_conf"
    "rxif_conf (hal_state_init\<lparr>rxif_conf := example_rxif_conf DR_LORA_SF7\<rparr>) =
       example_rxif_conf DR_LORA_SF7"
    by simp_all
  from off on ok bad a b c s1 show ?thesis
    by blast
qed

lemma get_pkt_at_most_one:
  "fst (sx126x_radio_get_pkt ral env payload r) \<le> 1"
  by (simp add: sx126x_radio_get_pkt_def Let_def)

text \<open>
  Claim C10. A call of \<open>sx126x_receive\<close> gives the same result for every \<open>max_pkt\<close>,
  zero included; it returns at most 1 and writes no cell of \<open>pkt_data\<close> other than
  \<open>pkt_data[0]\<close>; and when the concentrator is not started it returns \<open>LGW_HAL_ERROR\<close>
  and leaves the array and the state as they were.
\<close>

theorem receive_at_most_one:
  "sx126x_receive ral env max_pkt pkt_data st = sx126x_receive ral env 0 pkt_data st \<and>
   fst (sx126x_receive ral env max_pkt pkt_data st) \<le> 1 \<and>
   length (fst (snd (sx126x_receive ral env max_pkt pkt_data st))) = length pkt_data \<and>
   drop 1 (fst (snd (sx126x_receive ral env max_pkt pkt_data st))) = drop 1 pkt_data \<and>
   (is_started (fst st) = False \<longrightarrow>
      sx126x_receive ral env max_pkt pkt_data st = (LGW_HAL_ERROR, pkt_data, st))"
proof -
  obtain h r where st: "st = (h, r)"
    by (cases st)
  obtain n out r' where g: "sx126x_radio_get_pkt ral env (rxp_payload lgw_pkt_rx_zero) r = (n, out, r')"
    by (cases "sx126x_radio_get_pkt ral env (rxp_payload lgw_pkt_rx_zero) r")
  have n: "n \<le> 1"
    using get_pkt_at_most_one [of ral env "rxp_payload lgw_pkt_rx_zero" r] g by simp
  have same: "sx126x_receive ral env max_pkt pkt_data st = sx126x_receive ral env 0 pkt_data st"
    by (simp add: sx126x_receive_def)
  have err: "LGW_HAL_ERROR \<le> 1"
    by (simp add: LGW_HAL_ERROR_def)
  have ret: "fst (sx126x_receive ral env max_pkt pkt_data st) \<le> 1"
    using n err by (simp add: sx126x_receive_def st g Let_def)
  have len: "length (fst (snd (sx126x_receive ral env max_pkt pkt_data st))) = length pkt_data"
    by (simp add: sx126x_receive_def st g Let_def)
  have rest: "drop 1 (fst (snd (sx126x_receive ral env max_pkt pkt_data st))) = drop 1 pkt_data"
    by (simp add: sx126x_receive_def st g Let_def drop_update_cancel)
  have off: "is_started (fst st) = False \<longrightarrow>
      sx126x_receive ral env max_pkt pkt_data st = (LGW_HAL_ERROR, pkt_data, st)"
    by (simp add: sx126x_receive_def st)
  from same ret len rest off show ?thesis
    by blast
qed

text \<open>
  Not started, the call reports nothing. Started, with an \<open>RX_DONE\<close> interrupt pending
  and \<open>max_pkt = 0\<close>, it returns 1, writes the packet to \<open>pkt_data[0]\<close> and leaves
  \<open>pkt_data[1]\<close> alone.
\<close>

theorem receive_at_most_one_witness:
  "is_started (fst (hal_state_init, example_rx_state)) = False \<and>
   sx126x_receive example_ral example_rx_env 5 [lgw_pkt_rx_zero]
       (hal_state_init, example_rx_state) =
     (LGW_HAL_ERROR, [lgw_pkt_rx_zero], hal_state_init, example_rx_state) \<and>
   fst (sx126x_receive example_ral example_rx_env 0
          [lgw_pkt_rx_zero, lgw_pkt_rx_zero\<lparr>rxp_size := 9\<rparr>]
          (example_started, example_rx_state)) = 1 \<and>
   drop 1 (fst (snd (sx126x_receive example_ral example_rx_env 0
          [lgw_pkt_rx_zero, lgw_pkt_rx_zero\<lparr>rxp_size := 9\<rparr>]
          (example_started, example_rx_state)))) = [lgw_pkt_rx_zero\<lparr>rxp_size := 9\<rparr>] \<and>
   rxp_size (fst (snd (sx126x_receive example_ral example_rx_env 0
          [lgw_pkt_rx_zero, lgw_pkt_rx_zero\<lparr>rxp_size := 9\<rparr>]
          (example_started, example_rx_state))) ! 0) = 2"
proof -
  have off: "is_started (fst (hal_state_init, example_rx_state)) = False"
    by (simp add: hal_state_init_def)
  have one: "fst (sx126x_receive example_ral example_rx_env 0
          [lgw_pkt_rx_zero, lgw_pkt_rx_zero\<lparr>rxp_size := 9\<rparr>]
          (example_started, example_rx_state)) = 1"
    by (simp add: sx126x_receive_def sx126x_radio_get_pkt_def radio_irq_process_def Let_def
        example_ral_def example_rx_env_def example_started_def example_rx_state_def)
  have size: "rxp_size (fst (snd (sx126x_receive example_ral example_rx_env 0
          [lgw_pkt_rx_zero, lgw_pkt_rx_zero\<lparr>rxp_size := 9\<rparr>]
          (example_started, example_rx_state))) ! 0) = 2"
    by (simp add: sx126x_receive_def sx126x_radio_get_pkt_def radio_irq_process_def Let_def
        example_ral_def example_rx_env_def example_started_def example_rx_state_def)
  have e: "sx126x_receive example_ral example_rx_env 5 [lgw_pkt_rx_zero]
       (hal_state_init, example_rx_state) =
     (LGW_HAL_ERROR, [lgw_pkt_rx_zero], hal_state_init, example_rx_state)"
    using off receive_at_most_one [of example_ral example_rx_env 5 "[lgw_pkt_rx_zero]"
        "(hal_state_init, example_rx_state)"]
    by blast
  have "drop 1 (fst (snd (sx126x_receive example_ral example_rx_env 0
          [lgw_pkt_rx_zero, lgw_pkt_rx_zero\<lparr>rxp_size := 9\<rparr>]
          (example_started, example_rx_state)))) =
      drop 1 [lgw_pkt_rx_zero, lgw_pkt_rx_zero\<lparr>rxp_size := 9\<rparr>]"
    using receive_at_most_one [of example_ral example_rx_env 0
        "[lgw_pkt_rx_zero, lgw_pkt_rx_zero\<lparr>rxp_size := 9\<rparr>]"
        "(example_started, example_rx_state)"]
    by blast
  then have d: "drop 1 (fst (snd (sx126x_receive example_ral example_rx_env 0
          [lgw_pkt_rx_zero, lgw_pkt_rx_zero\<lparr>rxp_size := 9\<rparr>]
          (example_started, example_rx_state)))) = [lgw_pkt_rx_zero\<lparr>rxp_size := 9\<rparr>]"
    by simp
  from off e one d size show ?thesis
    by blast
qed

section \<open>Properties of the gateway data structures\<close>

text \<open>
  Claim C8. A reception batch holds at most \<open>NB_PKT_MAX\<close> radio packets, the array
  of the struct having \<open>NB_PKT_MAX\<close> cells; \<open>NB_PKT_MAX\<close> is 16 in a build for SX1301
  and 32 otherwise.
\<close>

theorem rxpkts_capacity:
  "NB_PKT_MAX True = 16 \<and> NB_PKT_MAX False = 32 \<and>
   (rxpkts_s_typed SX1301MOD b \<longrightarrow> length (rxpkts_held b) \<le> NB_PKT_MAX SX1301MOD)"
  by (simp add: NB_PKT_MAX_def rxpkts_s_typed_def rxpkts_held_def)

text \<open>
  A batch of a build without \<open>SX1301MOD\<close> has 32 cells; with \<open>nb_pkt = 3\<close> it holds
  three packets.
\<close>

theorem rxpkts_capacity_witness:
  "rxpkts_s_typed False (example_batch\<lparr>nb_pkt := 3\<rparr>) \<and>
   length (rxpkt (example_batch\<lparr>nb_pkt := 3\<rparr>)) = 32 \<and>
   length (rxpkts_held (example_batch\<lparr>nb_pkt := 3\<rparr>)) = 3 \<and>
   length (rxpkts_held (example_batch\<lparr>nb_pkt := 3\<rparr>)) \<le> NB_PKT_MAX False"
proof -
  have t: "rxpkts_s_typed False (example_batch\<lparr>nb_pkt := 3\<rparr>)"
    by (simp add: rxpkts_s_typed_def example_batch_def NB_PKT_MAX_def)
  have c: "length (rxpkt (example_batch\<lparr>nb_pkt := 3\<rparr>)) = 32"
    by (simp add: example_batch_def)
  have l: "length (rxpkts_held (example_batch\<lparr>nb_pkt := 3\<rparr>)) = 3"
    by (simp add: rxpkts_held_def example_batch_def)
  from t c l rxpkts_capacity [of False "example_batch\<lparr>nb_pkt := 3\<rparr>"] show ?thesis
    by blast
qed

subsection \<open>Service stamps\<close>

lemma unat_stamp:
  "i < 64 \<Longrightarrow> unat (of_nat i :: uint8_t) = i"
  by (simp add: unat_of_nat)

text \<open>
  The service list keeps its invariant under every step of the coordinator: stamps and
  names are unique and every stamp bit is below 64.
\<close>

lemma register_service_ok:
  assumes "distinct (map info_stamp servs)" and "distinct (map info_name servs)"
    and "\<forall>t \<in> set servs. unat (info_stamp t) < 64"
  shows "distinct (map info_stamp (register_service stamp_bit s servs)) \<and>
         distinct (map info_name (register_service stamp_bit s servs)) \<and>
         (\<forall>t \<in> set (register_service stamp_bit s servs). unat (info_stamp t) < 64)"
  using assms
  by (auto simp add: register_service_def unat_stamp)

lemma remove_service_ok:
  assumes "distinct (map info_stamp servs)" and "distinct (map info_name servs)"
    and "\<forall>t \<in> set servs. unat (info_stamp t) < 64"
  shows "distinct (map info_stamp (remove_service name servs)) \<and>
         distinct (map info_name (remove_service name servs)) \<and>
         (\<forall>t \<in> set (remove_service name servs). unat (info_stamp t) < 64)"
  using assms
  by (auto simp add: remove_service_def distinct_map_filter)

lemma fold_coord_step_ok:
  assumes "distinct (map info_stamp servs)" and "distinct (map info_name servs)"
    and "\<forall>t \<in> set servs. unat (info_stamp t) < 64"
  shows "distinct (map info_stamp (fold coord_step ops servs)) \<and>
         distinct (map info_name (fold coord_step ops servs)) \<and>
         (\<forall>t \<in> set (fold coord_step ops servs). unat (info_stamp t) < 64)"
  using assms
proof (induction ops arbitrary: servs)
  case Nil
  then show ?case
    by simp
next
  case (Cons op ops)
  have "distinct (map info_stamp (coord_step op servs)) \<and>
      distinct (map info_name (coord_step op servs)) \<and>
      (\<forall>t \<in> set (coord_step op servs). unat (info_stamp t) < 64)"
  proof (cases op)
    case (Register stamp_bit s)
    then show ?thesis
      using register_service_ok [OF Cons.prems] by simp
  next
    case (Remove name)
    then show ?thesis
      using remove_service_ok [OF Cons.prems] by simp
  qed
  then show ?case
    using Cons.IH [of "coord_step op servs"] by simp
qed

lemma coordinator_ok:
  "distinct (map info_stamp (coordinator ops)) \<and>
   distinct (map info_name (coordinator ops)) \<and>
   (\<forall>t \<in> set (coordinator ops). unat (info_stamp t) < 64)"
  unfolding coordinator_def
  by (rule fold_coord_step_ok) simp_all

lemma coord_step_keeps:
  assumes "s \<in> set servs" and "op \<noteq> Remove (info_name s)"
  shows "s \<in> set (coord_step op servs)"
  using assms
  by (cases op) (auto simp add: register_service_def remove_service_def)

lemma fold_coord_step_keeps:
  assumes "s \<in> set servs" and "Remove (info_name s) \<notin> set later"
  shows "s \<in> set (fold coord_step later servs)"
  using assms
proof (induction later arbitrary: servs)
  case Nil
  then show ?case
    by simp
next
  case (Cons op later)
  then have "s \<in> set (coord_step op servs)"
    by (auto intro: coord_step_keeps)
  with Cons show ?case
    by simp
qed

lemma coordinator_keeps:
  assumes "s \<in> set (coordinator ops)" and "Remove (info_name s) \<notin> set later"
  shows "s \<in> set (coordinator (ops @ later))"
  using assms by (simp add: coordinator_def fold_coord_step_keeps)

lemma has_stamp_set_stamp:
  "has_stamp s (set_stamp t b) \<longleftrightarrow>
     has_stamp s b \<or> (info_stamp s = info_stamp t \<and> unat (info_stamp s) < 8)"
proof -
  have "unat (info_stamp s) = unat (info_stamp t) \<longleftrightarrow> info_stamp s = info_stamp t"
    by (simp add: word_unat_eq_iff)
  then show ?thesis
    by (auto simp add: has_stamp_def set_stamp_def bit_simps dest: bit_imp_le_length)
qed

lemma has_stamp_fold:
  "has_stamp s (fold set_stamp marks b) \<longleftrightarrow>
     has_stamp s b \<or> (unat (info_stamp s) < 8 \<and> info_stamp s \<in> info_stamp ` set marks)"
  by (induction marks arbitrary: b) (auto simp add: has_stamp_set_stamp)

lemma new_rxpkts_clear: "\<not> has_stamp s (new_rxpkts now n pkts)"
  by (simp add: has_stamp_def new_rxpkts_def)

lemma at_most_eight:
  assumes "distinct (map info_stamp servs)" and "\<forall>s \<in> set servs. unat (info_stamp s) < 8"
  shows "length servs \<le> 8"
proof -
  have d: "distinct (map (\<lambda>s. unat (info_stamp s)) servs)"
  proof -
    have "inj_on (\<lambda>s. unat (info_stamp s)) (set servs)"
    proof (rule inj_onI)
      fix s t
      assume "s \<in> set servs" and "t \<in> set servs"
        and "unat (info_stamp s) = unat (info_stamp t)"
      then have "info_stamp s = info_stamp t"
        by (simp add: word_unat_eq_iff)
      with \<open>s \<in> set servs\<close> \<open>t \<in> set servs\<close> show "s = t"
        using assms(1) by (auto simp add: distinct_map dest: inj_onD)
    qed
    moreover have "distinct servs"
      using assms(1) by (simp add: distinct_map)
    ultimately show ?thesis
      by (simp add: distinct_map)
  qed
  have "set (map (\<lambda>s. unat (info_stamp s)) servs) \<subseteq> {0..<8}"
    using assms(2) by auto
  then have "card (set (map (\<lambda>s. unat (info_stamp s)) servs)) \<le> card {0..<8::nat}"
    by (rule card_mono [rotated]) simp
  then show ?thesis
    using distinct_card [OF d] by simp
qed

text \<open>
  Claim C7, as amended. Every registered service has a stamp bit in the range \<open>0..63\<close>
  that no other registered service has, and keeps it for its lifetime: until its
  descriptor is removed, whatever other services are registered or removed, the service
  list holds its descriptor with that bit. Every reception batch carries a stamp bitmap,
  which is eight bits wide (the \<open>uint8_t\<close> field \<open>stamps\<close>) and zero when the batch is
  created. After any services have marked a batch, the bits set are those of the marking
  services whose stamp bit is in \<open>0..7\<close>: the bit of a service can be set if and only if
  it is in \<open>0..7\<close>, setting it leaves the bits of the other services as they were, and a
  service list in which every service can set its bit has at most eight services.
\<close>

theorem stamp_bitmap_8bit:
  "distinct (map info_stamp (coordinator ops)) \<and>
   distinct (map info_name (coordinator ops)) \<and>
   (\<forall>s \<in> set (coordinator ops). unat (info_stamp s) < 64) \<and>
   (\<forall>s \<in> set (coordinator ops). Remove (info_name s) \<notin> set later \<longrightarrow>
      s \<in> set (coordinator (ops @ later)) \<and>
      (\<forall>t \<in> set (coordinator (ops @ later)).
         info_name t = info_name s \<longrightarrow> info_stamp t = info_stamp s)) \<and>
   stamps (new_rxpkts now n pkts) = 0 \<and>
   (\<forall>s. \<not> has_stamp s (new_rxpkts now n pkts)) \<and>
   (\<forall>s. has_stamp s (fold set_stamp marks (new_rxpkts now n pkts)) \<longleftrightarrow>
      unat (info_stamp s) < 8 \<and> info_stamp s \<in> info_stamp ` set marks) \<and>
   (\<forall>s. has_stamp s (set_stamp s b) \<longleftrightarrow> unat (info_stamp s) < 8) \<and>
   (\<forall>s t. info_stamp t \<noteq> info_stamp s \<longrightarrow> has_stamp t (set_stamp s b) = has_stamp t b) \<and>
   ((\<forall>s \<in> set (coordinator ops). has_stamp s (set_stamp s b)) \<longrightarrow>
      length (coordinator ops) \<le> 8)"
proof -
  note ok = coordinator_ok [of ops]
  have stable: "\<forall>s \<in> set (coordinator ops). Remove (info_name s) \<notin> set later \<longrightarrow>
      s \<in> set (coordinator (ops @ later)) \<and>
      (\<forall>t \<in> set (coordinator (ops @ later)).
         info_name t = info_name s \<longrightarrow> info_stamp t = info_stamp s)"
  proof (intro ballI impI conjI)
    fix s
    assume s: "s \<in> set (coordinator ops)" and r: "Remove (info_name s) \<notin> set later"
    then show in_later: "s \<in> set (coordinator (ops @ later))"
      by (rule coordinator_keeps)
    fix t
    assume t: "t \<in> set (coordinator (ops @ later))" and "info_name t = info_name s"
    moreover have "inj_on info_name (set (coordinator (ops @ later)))"
      using coordinator_ok [of "ops @ later"] by (simp add: distinct_map)
    ultimately have "t = s"
      using in_later by (auto dest: inj_onD)
    then show "info_stamp t = info_stamp s"
      by simp
  qed
  have zero: "stamps (new_rxpkts now n pkts) = 0"
    by (simp add: new_rxpkts_def)
  have marks: "\<forall>s. has_stamp s (fold set_stamp marks (new_rxpkts now n pkts)) \<longleftrightarrow>
      unat (info_stamp s) < 8 \<and> info_stamp s \<in> info_stamp ` set marks"
    by (simp add: has_stamp_fold new_rxpkts_clear)
  have lt: "unat (info_stamp s) < 8" if "has_stamp s c" for s c
    using that by (auto simp add: has_stamp_def dest: bit_imp_le_length)
  have own: "\<forall>s. has_stamp s (set_stamp s b) \<longleftrightarrow> unat (info_stamp s) < 8"
    by (auto simp add: has_stamp_set_stamp dest: lt)
  have other: "\<forall>s t. info_stamp t \<noteq> info_stamp s \<longrightarrow>
      has_stamp t (set_stamp s b) = has_stamp t b"
    by (simp add: has_stamp_set_stamp)
  have eight: "(\<forall>s \<in> set (coordinator ops). has_stamp s (set_stamp s b)) \<longrightarrow>
      length (coordinator ops) \<le> 8"
  proof
    assume "\<forall>s \<in> set (coordinator ops). has_stamp s (set_stamp s b)"
    with own have "\<forall>s \<in> set (coordinator ops). unat (info_stamp s) < 8"
      by simp
    with ok show "length (coordinator ops) \<le> 8"
      by (simp add: at_most_eight)
  qed
  from ok stable zero marks own other eight new_rxpkts_clear show ?thesis
    by blast
qed

lemma coordinator_example_ops: "coordinator example_ops = example_registered"
  by (simp add: coordinator_def example_ops_def example_registered_def
      register_service_def example_service_def)

lemma coordinator_example_later:
  "coordinator (example_ops @ example_later) = example_registered_later"
  by (simp add: coordinator_def example_ops_def example_later_def
      example_registered_later_def register_service_def remove_service_def
      example_service_def)

lemma coordinator_example_ops9: "coordinator example_ops9 = example_registered9"
  by (simp add: coordinator_def example_ops9_def example_registered9_def
      register_service_def example_service_def)

text \<open>
  Three services are registered with the bits 0, 3 and 5. The second keeps bit 3 while
  the first is removed and another service takes the freed bit 0. Its bit is clear in a
  new batch and set once it has marked the batch, which leaves the third service's bit
  clear; all three can set their bits, and they are no more than eight.
\<close>

theorem stamp_bitmap_8bit_witness:
  "coordinator example_ops = example_registered \<and>
   example_registered ! 1 \<in> set (coordinator example_ops) \<and>
   unat (info_stamp (example_registered ! 1)) = 3 \<and>
   Remove (info_name (example_registered ! 1)) \<notin> set example_later \<and>
   coordinator (example_ops @ example_later) = example_registered_later \<and>
   example_registered ! 1 \<in> set (coordinator (example_ops @ example_later)) \<and>
   example_registered_later ! 0 \<in> set (coordinator (example_ops @ example_later)) \<and>
   info_name (example_registered_later ! 0) = info_name (example_registered ! 1) \<and>
   info_stamp (example_registered_later ! 0) = info_stamp (example_registered ! 1) \<and>
   \<not> has_stamp (example_registered ! 1)
       (new_rxpkts 5000000 0 (replicate 32 lgw_pkt_rx_zero)) \<and>
   has_stamp (example_registered ! 1)
     (set_stamp (example_registered ! 1)
        (new_rxpkts 5000000 0 (replicate 32 lgw_pkt_rx_zero))) \<and>
   info_stamp (example_registered ! 2) \<noteq> info_stamp (example_registered ! 1) \<and>
   \<not> has_stamp (example_registered ! 2)
       (set_stamp (example_registered ! 1)
          (new_rxpkts 5000000 0 (replicate 32 lgw_pkt_rx_zero))) \<and>
   has_stamp (example_registered ! 2)
     (fold set_stamp [example_registered ! 1, example_registered ! 2]
        (new_rxpkts 5000000 0 (replicate 32 lgw_pkt_rx_zero))) \<and>
   has_stamp (example_registered ! 0)
     (set_stamp (example_registered ! 0)
        (new_rxpkts 5000000 0 (replicate 32 lgw_pkt_rx_zero))) \<and>
   has_stamp (example_registered ! 2)
     (set_stamp (example_registered ! 2)
        (new_rxpkts 5000000 0 (replicate 32 lgw_pkt_rx_zero))) \<and>
   length (coordinator example_ops) \<le> 8"
proof -
  note t = stamp_bitmap_8bit [of example_ops example_later 5000000 0
      "replicate 32 lgw_pkt_rx_zero" "[example_registered ! 1, example_registered ! 2]"
      "new_rxpkts 5000000 0 (replicate 32 lgw_pkt_rx_zero)"]
  note c = coordinator_example_ops
  note l = coordinator_example_later
  have m: "example_registered ! 1 \<in> set (coordinator example_ops)"
    unfolding c by (simp add: example_registered_def)
  have u: "unat (info_stamp (example_registered ! 1)) = 3"
    by (simp add: example_registered_def)
  have r: "Remove (info_name (example_registered ! 1)) \<notin> set example_later"
    by (simp add: example_registered_def example_later_def example_service_def)
  have ml: "example_registered_later ! 0 \<in> set (coordinator (example_ops @ example_later))"
    unfolding l by (simp add: example_registered_later_def)
  have nm: "info_name (example_registered_later ! 0) = info_name (example_registered ! 1)"
    by (simp add: example_registered_later_def example_registered_def)
  have d: "info_stamp (example_registered ! 2) \<noteq> info_stamp (example_registered ! 1)"
    by (simp add: example_registered_def)
  have u2: "unat (info_stamp (example_registered ! 2)) < 8 \<and>
      info_stamp (example_registered ! 2) \<in>
        info_stamp ` set [example_registered ! 1, example_registered ! 2]"
    by (simp add: example_registered_def)
  have all: "\<forall>s \<in> set (coordinator example_ops). unat (info_stamp s) < 8"
    unfolding c by (simp add: example_registered_def)
  from t m r have k: "example_registered ! 1 \<in> set (coordinator (example_ops @ example_later))"
    by blast
  from t m r ml nm
  have st: "info_stamp (example_registered_later ! 0) = info_stamp (example_registered ! 1)"
    by blast
  from t have clear: "\<not> has_stamp (example_registered ! 1)
      (new_rxpkts 5000000 0 (replicate 32 lgw_pkt_rx_zero))"
    by blast
  from t u have own: "has_stamp (example_registered ! 1)
      (set_stamp (example_registered ! 1)
        (new_rxpkts 5000000 0 (replicate 32 lgw_pkt_rx_zero)))"
    by simp
  from t d have "has_stamp (example_registered ! 2)
       (set_stamp (example_registered ! 1)
          (new_rxpkts 5000000 0 (replicate 32 lgw_pkt_rx_zero))) =
      has_stamp (example_registered ! 2) (new_rxpkts 5000000 0 (replicate 32 lgw_pkt_rx_zero))"
    by blast
  moreover from t have "\<not> has_stamp (example_registered ! 2)
      (new_rxpkts 5000000 0 (replicate 32 lgw_pkt_rx_zero))"
    by blast
  ultimately have other: "\<not> has_stamp (example_registered ! 2)
       (set_stamp (example_registered ! 1)
          (new_rxpkts 5000000 0 (replicate 32 lgw_pkt_rx_zero)))"
    by simp
  from t u2 have both: "has_stamp (example_registered ! 2)
     (fold set_stamp [example_registered ! 1, example_registered ! 2]
        (new_rxpkts 5000000 0 (replicate 32 lgw_pkt_rx_zero)))"
    by blast
  from t all have every: "\<forall>s \<in> set (coordinator example_ops).
      has_stamp s (set_stamp s (new_rxpkts 5000000 0 (replicate 32 lgw_pkt_rx_zero)))"
    by blast
  with t have len: "length (coordinator example_ops) \<le> 8"
    by blast
  have "example_registered ! 0 \<in> set (coordinator example_ops)"
    unfolding c by (simp add: example_registered_def)
  with every have own0: "has_stamp (example_registered ! 0)
      (set_stamp (example_registered ! 0)
        (new_rxpkts 5000000 0 (replicate 32 lgw_pkt_rx_zero)))"
    by blast
  have "example_registered ! 2 \<in> set (coordinator example_ops)"
    unfolding c by (simp add: example_registered_def)
  with every have own2: "has_stamp (example_registered ! 2)
      (set_stamp (example_registered ! 2)
        (new_rxpkts 5000000 0 (replicate 32 lgw_pkt_rx_zero)))"
    by blast
  from c m u r l k ml nm st clear own d other both own0 own2 len show ?thesis
    by blast
qed

text \<open>
  Claim C7 as stated lets a service have any stamp bit in \<open>0..63\<close> and says the bit can
  be set in every batch. Nine services registered with the bits 0 to 8 have unique bits in
  that range, and marking a new batch for the ninth leaves the eight-bit bitmap without
  its bit. No other choice of bits helps: nine services that can all set their bits do not
  exist.
\<close>

theorem stamp_bitmap_8bit_counterexample:
  "coordinator example_ops9 = example_registered9 \<and>
   length example_registered9 = 9 \<and>
   distinct (map info_stamp example_registered9) \<and>
   example_registered9 ! 8 \<in> set example_registered9 \<and>
   unat (info_stamp (example_registered9 ! 8)) = 8 \<and>
   stamps (new_rxpkts 5000000 0 (replicate 32 lgw_pkt_rx_zero)) = 0 \<and>
   \<not> has_stamp (example_registered9 ! 8)
       (set_stamp (example_registered9 ! 8)
          (new_rxpkts 5000000 0 (replicate 32 lgw_pkt_rx_zero)))"
proof -
  have c: "coordinator example_ops9 = example_registered9"
    by (rule coordinator_example_ops9)
  have n: "length example_registered9 = 9"
    by (simp add: example_registered9_def)
  have d: "distinct (map info_stamp example_registered9)"
    by (simp add: example_registered9_def)
  have m: "example_registered9 ! 8 \<in> set example_registered9"
    by (rule nth_mem) (simp add: n)
  have u: "unat (info_stamp (example_registered9 ! 8)) = 8"
    by (simp add: example_registered9_def)
  have z: "stamps (new_rxpkts 5000000 0 (replicate 32 lgw_pkt_rx_zero)) = 0"
    by (simp add: new_rxpkts_def)
  have x: "\<not> has_stamp (example_registered9 ! 8)
       (set_stamp (example_registered9 ! 8)
          (new_rxpkts 5000000 0 (replicate 32 lgw_pkt_rx_zero)))"
    by (simp add: has_stamp_def set_stamp_def new_rxpkts_def example_registered9_def)
  from c n d m u z x show ?thesis
    by blast
qed

end
